theory Spec2Isabelle
  imports Complex_Main "HOL-Library.Sublist" "HOL-Library.AList" "HOL-Library.Log_Nat"
begin

section \<open>Python values, errors and the operators the program applies to them\<close>

text \<open>
  The program works on untyped records: dictionaries from field names to values that come
  from \<^verbatim>\<open>json.loads\<close> or from the delimited-text reader. A value is modelled by
  \<open>pyval\<close>. Python's \<^verbatim>\<open>int\<close> is unbounded and is \<open>int\<close>. A \<^verbatim>\<open>float\<close> held by a
  record is a finite binary64 number, given by its value, a \<open>real\<close> (records holding an
  infinity or a NaN lie outside the model); what the program computes from it is rounded
  as binary64 arithmetic rounds it, see the section on float arithmetic.
  A string is a list of characters with code points below 256. A dictionary is an association
  list read through \<open>map_of\<close>; its keys are strings, as in JSON objects and in the records the
  delimited-text reader builds.
\<close>

datatype pyval =
    PNone
  | PBool bool
  | PInt int
  | PFloat real
  | PStr string
  | PList "pyval list"
  | PDict "(string \<times> pyval) list"

datatype pyerror =
  TypeError | ValueError | KeyError | AttributeError | OverflowError | OtherError

text \<open>The exceptions the program can meet; \<open>OtherError\<close> stands for any other exception a
  library reader raises. Sequencing of fallible steps: the first exception raised ends the
  computation.\<close>

definition bnd :: "pyerror + 'a \<Rightarrow> ('a \<Rightarrow> pyerror + 'b) \<Rightarrow> pyerror + 'b" where
  "bnd x f = (case x of Inl e \<Rightarrow> Inl e | Inr v \<Rightarrow> f v)"

text \<open>\<^verbatim>\<open>record[key]\<close>: only a dictionary can be subscripted by a string.\<close>

definition py_getitem :: "pyval \<Rightarrow> string \<Rightarrow> pyerror + pyval" where
  "py_getitem v k =
     (case v of
        PDict d \<Rightarrow> (case map_of d k of None \<Rightarrow> Inl KeyError | Some x \<Rightarrow> Inr x)
      | _ \<Rightarrow> Inl TypeError)"

text \<open>\<^verbatim>\<open>field in record\<close>: key membership for a dictionary, substring test for a string,
  element membership for a list, \<^verbatim>\<open>TypeError\<close> for anything else.\<close>

definition py_contains :: "string \<Rightarrow> pyval \<Rightarrow> pyerror + bool" where
  "py_contains k v =
     (case v of
        PDict d \<Rightarrow> Inr (map_of d k \<noteq> None)
      | PStr s \<Rightarrow> Inr (sublist k s)
      | PList xs \<Rightarrow> Inr (PStr k \<in> set xs)
      | _ \<Rightarrow> Inl TypeError)"

text \<open>\<^verbatim>\<open>len(data)\<close> and the elements a \<^verbatim>\<open>for\<close> loop over \<open>data\<close> visits.\<close>

definition py_len :: "pyval \<Rightarrow> pyerror + nat" where
  "py_len v =
     (case v of
        PList xs \<Rightarrow> Inr (length xs)
      | PStr s \<Rightarrow> Inr (length s)
      | PDict d \<Rightarrow> Inr (length d)
      | _ \<Rightarrow> Inl TypeError)"

definition py_iter :: "pyval \<Rightarrow> pyerror + pyval list" where
  "py_iter v =
     (case v of
        PList xs \<Rightarrow> Inr xs
      | PStr s \<Rightarrow> Inr (map (\<lambda>c. PStr [c]) s)
      | PDict d \<Rightarrow> Inr (map (\<lambda>kv. PStr (fst kv)) d)
      | _ \<Rightarrow> Inl TypeError)"

text \<open>Truth value of an object, as \<^verbatim>\<open>if not data\<close> tests it.\<close>

definition truthy :: "pyval \<Rightarrow> bool" where
  "truthy v =
     (case v of
        PNone \<Rightarrow> False
      | PBool b \<Rightarrow> b
      | PInt i \<Rightarrow> i \<noteq> 0
      | PFloat x \<Rightarrow> x \<noteq> 0
      | PStr s \<Rightarrow> s \<noteq> []
      | PList xs \<Rightarrow> xs \<noteq> []
      | PDict d \<Rightarrow> d \<noteq> [])"

text \<open>The numeric value of a number (\<^verbatim>\<open>bool\<close> is a subtype of \<^verbatim>\<open>int\<close>).\<close>

definition num_of :: "pyval \<Rightarrow> real option" where
  "num_of v =
     (case v of
        PBool b \<Rightarrow> Some (if b then 1 else 0)
      | PInt i \<Rightarrow> Some (of_int i)
      | PFloat x \<Rightarrow> Some x
      | _ \<Rightarrow> None)"

definition int_of_num :: "pyval \<Rightarrow> int option" where
  "int_of_num v =
     (case v of
        PBool b \<Rightarrow> Some (if b then 1 else 0)
      | PInt i \<Rightarrow> Some i
      | _ \<Rightarrow> None)"

text \<open>Comparison of a value with a numeric literal; comparing a non-number with a number
  raises \<^verbatim>\<open>TypeError\<close>.\<close>

definition py_lt :: "pyval \<Rightarrow> real \<Rightarrow> pyerror + bool" where
  "py_lt v c = (case num_of v of None \<Rightarrow> Inl TypeError | Some x \<Rightarrow> Inr (x < c))"

definition py_le :: "pyval \<Rightarrow> real \<Rightarrow> pyerror + bool" where
  "py_le v c = (case num_of v of None \<Rightarrow> Inl TypeError | Some x \<Rightarrow> Inr (x \<le> c))"

definition py_ge :: "pyval \<Rightarrow> real \<Rightarrow> pyerror + bool" where
  "py_ge v c = (case num_of v of None \<Rightarrow> Inl TypeError | Some x \<Rightarrow> Inr (c \<le> x))"

subsection \<open>Float arithmetic\<close>

text \<open>
  A float the program computes is a finite binary64 number, an infinity or a NaN. Every
  arithmetic operation returns the exact result rounded to the nearest binary64 number, a
  tie going to the number with an even significand (IEEE 754, the rounding CPython's floats
  have); a rounded result of magnitude \<open>2 ^ 1024\<close> or more is an infinity. The sign of a
  zero is not tracked.

  \<open>binary_exponent x\<close> is the integer \<open>e\<close> with \<open>2 ^ e \<le> \<bar>x\<bar> < 2 ^ (e + 1)\<close>. A binary64 number
  with exponent \<open>e\<close> is a multiple of \<open>2 ^ (e - 52)\<close>, and below \<open>2 ^ (- 1022)\<close> the spacing
  stays \<open>2 ^ (- 1074)\<close>.
\<close>

datatype xfloat = Fin real | PosInf | NegInf | NaN

definition round_half_even :: "real \<Rightarrow> int" where
  "round_half_even x =
     (let f = \<lfloor>x\<rfloor>; d = x - of_int f
      in if d < 1/2 then f else if 1/2 < d then f + 1 else if even f then f else f + 1)"

definition binary_exponent :: "real \<Rightarrow> int" where
  "binary_exponent x =
     (let a = \<bar>x\<bar> in
      if 1 \<le> a then bitlen \<lfloor>a\<rfloor> - 1
      else (let k = bitlen \<lfloor>1 / a\<rfloor> - 1 in if 2 powi (- k) \<le> a then - k else - k - 1))"

definition to_float :: "real \<Rightarrow> xfloat" where
  "to_float x =
     (if x = 0 then Fin 0
      else (let e = max (binary_exponent x) (- 1022);
                q = 2 powi (e - 52);
                r = of_int (round_half_even (x / q)) * q
            in if 2 powi 1024 \<le> \<bar>r\<bar> then (if 0 < x then PosInf else NegInf) else Fin r))"

definition is_finite :: "xfloat \<Rightarrow> bool" where
  "is_finite a = (case a of Fin x \<Rightarrow> True | _ \<Rightarrow> False)"

text \<open>The float a decimal literal of the source denotes, such as \<^verbatim>\<open>0.3\<close>: the binary64
  number nearest to it (the literals of the program are far inside the float range).\<close>

definition float_lit :: "real \<Rightarrow> real" where
  "float_lit x = (case to_float x of Fin y \<Rightarrow> y | _ \<Rightarrow> 0)"

text \<open>Product and sum of two floats, with the IEEE rules for infinities and NaN.\<close>

definition xsign :: "xfloat \<Rightarrow> real" where
  "xsign a = (case a of Fin x \<Rightarrow> sgn x | PosInf \<Rightarrow> 1 | NegInf \<Rightarrow> - 1 | NaN \<Rightarrow> 0)"

definition xmul :: "xfloat \<Rightarrow> xfloat \<Rightarrow> xfloat" where
  "xmul a b =
     (case (a, b) of
        (Fin x, Fin y) \<Rightarrow> to_float (x * y)
      | _ \<Rightarrow>
        if a = NaN \<or> b = NaN \<or> xsign a * xsign b = 0 then NaN
        else if 0 < xsign a * xsign b then PosInf else NegInf)"

definition xadd :: "xfloat \<Rightarrow> xfloat \<Rightarrow> xfloat" where
  "xadd a b =
     (case (a, b) of
        (Fin x, Fin y) \<Rightarrow> to_float (x + y)
      | _ \<Rightarrow>
        if a = NaN \<or> b = NaN then NaN
        else if (a = PosInf \<and> b = NegInf) \<or> (a = NegInf \<and> b = PosInf) then NaN
        else if a = PosInf \<or> b = PosInf then PosInf else NegInf)"

text \<open>Quotient of a float by a positive finite number \<open>c\<close> (the program divides by 10000
  only), and the comparison \<^verbatim>\<open>a >= c\<close>, which is false for a NaN.\<close>

definition xdiv :: "xfloat \<Rightarrow> real \<Rightarrow> xfloat" where
  "xdiv a c = (case a of Fin x \<Rightarrow> to_float (x / c) | _ \<Rightarrow> a)"

definition xge :: "xfloat \<Rightarrow> real \<Rightarrow> bool" where
  "xge a c = (case a of Fin x \<Rightarrow> c \<le> x | PosInf \<Rightarrow> True | _ \<Rightarrow> False)"

text \<open>\<^verbatim>\<open>round(a, 2)\<close> of a float: the float nearest to the multiple of 0.01 that is nearest
  to the exact binary value of \<open>a\<close>, a tie between two multiples going to the even one (the
  tie is decided on the binary value, so the float written 0.475 rounds to 0.47); an
  infinity or a NaN is returned unchanged.\<close>

definition xround2 :: "xfloat \<Rightarrow> xfloat" where
  "xround2 a =
     (case a of Fin x \<Rightarrow> to_float (of_int (round_half_even (x * 100)) / 100) | _ \<Rightarrow> a)"

subsection \<open>Arithmetic on values\<close>

text \<open>What line 217 can compute: an integer, a float, or a repeated string or list.\<close>

datatype pyresult = RInt int | RFloat xfloat | RSeq pyval

text \<open>The conversion of a number to a float that mixed arithmetic applies: an integer is
  rounded to the nearest float, and \<^verbatim>\<open>OverflowError\<close> is raised when it is too large for
  one.\<close>

definition float_of_int :: "int \<Rightarrow> pyerror + real" where
  "float_of_int i = (case to_float (of_int i) of Fin y \<Rightarrow> Inr y | _ \<Rightarrow> Inl OverflowError)"

definition as_float :: "pyval \<Rightarrow> pyerror + real" where
  "as_float v =
     (case v of
        PBool b \<Rightarrow> float_of_int (if b then 1 else 0)
      | PInt i \<Rightarrow> float_of_int i
      | PFloat x \<Rightarrow> Inr x
      | _ \<Rightarrow> Inl TypeError)"

text \<open>\<^verbatim>\<open>a * b\<close>: integer product of two integers, float product when a float is involved
  (the integer operand converted first), repetition of a string or list by an integer,
  \<^verbatim>\<open>TypeError\<close> otherwise.\<close>

definition py_mul :: "pyval \<Rightarrow> pyval \<Rightarrow> pyerror + pyresult" where
  "py_mul a b =
     (case (int_of_num a, int_of_num b) of
        (Some i, Some j) \<Rightarrow> Inr (RInt (i * j))
      | _ \<Rightarrow>
        (case (num_of a, num_of b) of
           (Some u, Some v) \<Rightarrow>
             bnd (as_float a) (\<lambda>x. bnd (as_float b) (\<lambda>y. Inr (RFloat (to_float (x * y)))))
         | _ \<Rightarrow>
           (case (a, int_of_num b) of
              (PStr s, Some n) \<Rightarrow> Inr (RSeq (PStr (concat (replicate (nat n) s))))
            | (PList xs, Some n) \<Rightarrow> Inr (RSeq (PList (concat (replicate (nat n) xs))))
            | _ \<Rightarrow>
              (case (int_of_num a, b) of
                 (Some n, PStr s) \<Rightarrow> Inr (RSeq (PStr (concat (replicate (nat n) s))))
               | (Some n, PList xs) \<Rightarrow> Inr (RSeq (PList (concat (replicate (nat n) xs))))
               | _ \<Rightarrow> Inl TypeError))))"

text \<open>\<^verbatim>\<open>a / c\<close> with the integer literal 10000 on the right: the quotient of two integers
  is the exact quotient rounded once to a float, \<^verbatim>\<open>OverflowError\<close> when it is too large for
  one; a float is divided by the float of the literal; \<^verbatim>\<open>TypeError\<close> for a string or
  list.\<close>

definition py_truediv :: "pyresult \<Rightarrow> int \<Rightarrow> pyerror + xfloat" where
  "py_truediv a c =
     (case a of
        RInt i \<Rightarrow>
          (case to_float (of_int i / of_int c) of
             Fin q \<Rightarrow> Inr (Fin q) | _ \<Rightarrow> Inl OverflowError)
      | RFloat x \<Rightarrow> Inr (xdiv x (of_int c))
      | RSeq v \<Rightarrow> Inl TypeError)"

text \<open>\<^verbatim>\<open>a * c\<close> with a float literal on the right.\<close>

definition py_mul_float :: "pyval \<Rightarrow> real \<Rightarrow> pyerror + xfloat" where
  "py_mul_float a c = bnd (as_float a) (\<lambda>x. Inr (to_float (x * c)))"

text \<open>\<^verbatim>\<open>round(v, 2)\<close>: an integer is returned unchanged; a string or list has no
  \<^verbatim>\<open>__round__\<close>.\<close>

definition py_round2 :: "pyresult \<Rightarrow> pyerror + pyresult" where
  "py_round2 v =
     (case v of
        RInt i \<Rightarrow> Inr (RInt i)
      | RFloat x \<Rightarrow> Inr (RFloat (xround2 x))
      | RSeq s \<Rightarrow> Inl TypeError)"

text \<open>\<^verbatim>\<open>user_data.copy()\<close>: dictionaries and lists have the method.\<close>

definition py_copy :: "pyval \<Rightarrow> pyerror + pyval" where
  "py_copy v =
     (case v of
        PDict d \<Rightarrow> Inr (PDict d)
      | PList xs \<Rightarrow> Inr (PList xs)
      | _ \<Rightarrow> Inl AttributeError)"

text \<open>A lookup in one of the program's own constant tables.\<close>

definition table_lookup :: "(string \<times> 'a) list \<Rightarrow> string \<Rightarrow> pyerror + 'a" where
  "table_lookup t k = (case map_of t k of None \<Rightarrow> Inl KeyError | Some x \<Rightarrow> Inr x)"

section \<open>The metrics engine: \<^verbatim>\<open>calculate_metrics\<close>\<close>

record calculations =
  predicted_activity :: pyresult
  heart_rate_category :: string
  environmental_quality :: string
  temperature_impact :: string
  normalized_activity :: xfloat
  heart_component :: xfloat
  env_component :: xfloat
  composite_fitness_score :: xfloat
  recommendation :: string
  status :: string

record metrics =
  input_data :: pyval
  calcs :: calculations

definition heart_rate_factors :: "(string \<times> pyval) list" where
  "heart_rate_factors =
     [(''Optimal'', PInt 1), (''Below Optimal'', PFloat (float_lit 0.8)),
      (''Above Optimal'', PFloat (float_lit 0.7))]"

definition env_factors :: "(string \<times> pyval) list" where
  "env_factors = [(''Good'', PInt 1), (''Moderate'', PFloat (float_lit 0.8)),
      (''Poor'', PFloat (float_lit 0.6))]"

text \<open>The three classifications, each an \<^verbatim>\<open>if/elif/else\<close> chain of the source.\<close>

definition classify_heart_rate :: "pyval \<Rightarrow> pyerror + string" where
  "classify_heart_rate heart_rate =
     bnd (py_lt heart_rate 60) (\<lambda>below.
       if below then Inr ''Below Optimal''
       else bnd (py_ge heart_rate 60) (\<lambda>lo.
         bnd (if lo then py_le heart_rate 100 else Inr False) (\<lambda>inside.
           if inside then Inr ''Optimal'' else Inr ''Above Optimal'')))"

definition classify_env :: "pyval \<Rightarrow> pyerror + string" where
  "classify_env env_index =
     bnd (py_ge env_index 75) (\<lambda>good.
       if good then Inr ''Good''
       else bnd (py_ge env_index 50) (\<lambda>moderate.
         if moderate then Inr ''Moderate'' else Inr ''Poor''))"

definition classify_temp :: "pyval \<Rightarrow> pyerror + string" where
  "classify_temp temp =
     bnd (py_ge temp 15) (\<lambda>lo.
       bnd (if lo then py_le temp 25 else Inr False) (\<lambda>ideal.
         if ideal then Inr ''Ideal Temperature''
         else bnd (py_lt temp 15) (\<lambda>cold.
           if cold then Inr ''Too Cold'' else Inr ''Too Hot'')))"

definition calculate_metrics :: "pyval \<Rightarrow> pyerror + metrics" where
  "calculate_metrics user_data =
     bnd (py_copy user_data) (\<lambda>input.
     bnd (py_getitem user_data ''current_steps'') (\<lambda>steps.
     bnd (py_getitem user_data ''activity_intensity_factor'') (\<lambda>intensity.
     bnd (py_mul steps intensity) (\<lambda>predicted.
     bnd (py_round2 predicted) (\<lambda>predicted_rounded.
     bnd (py_getitem user_data ''heart_rate'') (\<lambda>heart_rate.
     bnd (classify_heart_rate heart_rate) (\<lambda>hr_category.
     bnd (py_getitem user_data ''environmental_index'') (\<lambda>env_index.
     bnd (classify_env env_index) (\<lambda>env_quality.
     bnd (py_getitem user_data ''ambient_temperature'') (\<lambda>temp.
     bnd (classify_temp temp) (\<lambda>temp_impact.
     bnd (table_lookup heart_rate_factors hr_category) (\<lambda>heart_rate_factor.
     bnd (table_lookup env_factors env_quality) (\<lambda>env_factor.
     bnd (py_truediv predicted 10000) (\<lambda>quotient.
     bnd (py_mul_float heart_rate_factor (float_lit 0.3)) (\<lambda>heart_comp.
     bnd (py_mul_float env_factor (float_lit 0.2)) (\<lambda>env_comp.
       let normalized = xmul quotient (Fin 0.5);
           composite_score = xadd (xadd normalized heart_comp) env_comp;
           optimal = (xge composite_score 0.75 \<and> hr_category = ''Optimal''
                       \<and> temp_impact = ''Ideal Temperature'')
       in Inr \<lparr> input_data = input,
                 calcs = \<lparr> predicted_activity = predicted_rounded,
                           heart_rate_category = hr_category,
                           environmental_quality = env_quality,
                           temperature_impact = temp_impact,
                           normalized_activity = xround2 normalized,
                           heart_component = xround2 heart_comp,
                           env_component = xround2 env_comp,
                           composite_fitness_score = xround2 composite_score,
                           recommendation =
                             (if optimal then ''Continue current fitness plan''
                              else ''Adjust fitness plan''),
                           status = (if optimal then ''Optimal'' else ''Needs Adjustment'')
                         \<rparr> \<rparr>))))))))))))))))"

section \<open>The library the program calls\<close>

text \<open>
  \<^verbatim>\<open>json.loads\<close>, \<^verbatim>\<open>csv.reader\<close>, the conversions \<^verbatim>\<open>int(s)\<close> and \<^verbatim>\<open>float(s)\<close> of a
  string and the text \<^verbatim>\<open>str(v)\<close> an f-string inserts for a value belong to Python's
  library, not to the program. The program's functions take them as a parameter \<open>lib\<close>; every
  general theorem below holds for every library. A result \<open>Inl e\<close> of the two readers is an
  exception they raise; \<open>None\<close> from a conversion is its \<^verbatim>\<open>ValueError\<close>.
\<close>

record pylib =
  json_loads :: "string \<Rightarrow> pyerror + pyval"
  csv_reader :: "string \<Rightarrow> pyerror + string list list"
  int_of_str :: "string \<Rightarrow> int option"
  float_of_str :: "string \<Rightarrow> real option"
  str_of :: "pyval \<Rightarrow> string"

text \<open>\<^verbatim>\<open>int(v)\<close>: a float is truncated towards zero, a string is parsed.
  \<^verbatim>\<open>float(v)\<close>: the validator only compares the converted value with 0 and 100, which
  rounding to a float does not change, so the conversion keeps the value exact; an integer
  too large for a float is not modelled in this conversion.\<close>

definition py_int :: "pylib \<Rightarrow> pyval \<Rightarrow> pyerror + int" where
  "py_int lib v =
     (case v of
        PBool b \<Rightarrow> Inr (if b then 1 else 0)
      | PInt i \<Rightarrow> Inr i
      | PFloat x \<Rightarrow> Inr (if 0 \<le> x then \<lfloor>x\<rfloor> else \<lceil>x\<rceil>)
      | PStr s \<Rightarrow> (case int_of_str lib s of None \<Rightarrow> Inl ValueError | Some i \<Rightarrow> Inr i)
      | _ \<Rightarrow> Inl TypeError)"

definition py_float :: "pylib \<Rightarrow> pyval \<Rightarrow> pyerror + real" where
  "py_float lib v =
     (case v of
        PBool b \<Rightarrow> Inr (if b then 1 else 0)
      | PInt i \<Rightarrow> Inr (of_int i)
      | PFloat x \<Rightarrow> Inr x
      | PStr s \<Rightarrow> (case float_of_str lib s of None \<Rightarrow> Inl ValueError | Some x \<Rightarrow> Inr x)
      | _ \<Rightarrow> Inl TypeError)"

text \<open>Strings: the line feed, \<^verbatim>\<open>sep.join(xs)\<close>, the decimal text of a count and
  \<^verbatim>\<open>s.strip()\<close>.\<close>

definition nl :: string where
  "nl = [CHR 0x0A]"

fun join :: "string \<Rightarrow> string list \<Rightarrow> string" where
  "join sep [] = []"
| "join sep [x] = x"
| "join sep (x # y # ys) = x @ sep @ join sep (y # ys)"

fun str_of_nat :: "nat \<Rightarrow> string" where
  "str_of_nat n =
     (if n < 10 then [''0123456789'' ! n]
      else str_of_nat (n div 10) @ [''0123456789'' ! (n mod 10)])"

declare str_of_nat.simps [simp del]

definition is_space :: "char \<Rightarrow> bool" where
  "is_space c =
     (c \<in> set [CHR 0x09, CHR 0x0A, CHR 0x0B, CHR 0x0C, CHR 0x0D, CHR 0x1C, CHR 0x1D,
                CHR 0x1E, CHR 0x1F, CHR 0x20, CHR 0x85, CHR 0xA0])"

definition strip :: "string \<Rightarrow> string" where
  "strip s = rev (dropWhile is_space (rev (dropWhile is_space s)))"

section \<open>The validator: \<^verbatim>\<open>validate_data\<close>\<close>

definition required_fields :: "string list" where
  "required_fields =
     [''user_id'', ''current_steps'', ''heart_rate'', ''ambient_temperature'',
      ''environmental_index'', ''activity_intensity_factor'']"

record validation_results =
  num_users :: nat
  fields_check :: "(string \<times> string) list"
  errors :: "string list"

text \<open>The inner loop collecting the required fields that are not in the record.\<close>

fun missing_loop :: "string list \<Rightarrow> pyval \<Rightarrow> pyerror + string list" where
  "missing_loop [] record = Inr []"
| "missing_loop (field # others) record =
     bnd (py_contains field record) (\<lambda>present.
     bnd (missing_loop others record) (\<lambda>rest.
       Inr (if present then rest else field # rest)))"

text \<open>
  A \<^verbatim>\<open>try\<close> block with \<^verbatim>\<open>except (ValueError, TypeError)\<close>: the field is invalid when
  the conversion raises one of the two or when the converted value fails the range test
  \<open>bad\<close>; any other exception leaves the function.
\<close>

definition caught :: "pyerror + 'a \<Rightarrow> ('a \<Rightarrow> bool) \<Rightarrow> pyerror + bool" where
  "caught r bad =
     (case r of
        Inr v \<Rightarrow> Inr (bad v)
      | Inl e \<Rightarrow> if e = ValueError \<or> e = TypeError then Inr True else Inl e)"

definition flag :: "bool \<Rightarrow> string \<Rightarrow> string list" where
  "flag invalid field = (if invalid then [field] else [])"

definition invalid_fields :: "pylib \<Rightarrow> pyval \<Rightarrow> pyerror + string list" where
  "invalid_fields lib record =
     bnd (py_getitem record ''user_id'') (\<lambda>uid.
     bnd (caught (bnd (py_getitem record ''current_steps'') (py_int lib)) (\<lambda>steps. steps \<le> 0))
       (\<lambda>bad_steps.
     bnd (caught (bnd (py_getitem record ''heart_rate'') (py_int lib)) (\<lambda>hr. hr \<le> 0))
       (\<lambda>bad_hr.
     bnd (caught (bnd (py_getitem record ''ambient_temperature'') (py_float lib)) (\<lambda>t. False))
       (\<lambda>bad_temp.
     bnd (caught (bnd (py_getitem record ''environmental_index'') (py_float lib))
            (\<lambda>env_index. env_index < 0 \<or> 100 < env_index))
       (\<lambda>bad_env.
     bnd (caught (bnd (py_getitem record ''activity_intensity_factor'') (py_float lib))
            (\<lambda>intensity. intensity \<le> 0))
       (\<lambda>bad_intensity.
       Inr (flag (case uid of PStr s \<Rightarrow> False | _ \<Rightarrow> True) ''user_id''
            @ flag bad_steps ''current_steps''
            @ flag bad_hr ''heart_rate''
            @ flag bad_temp ''ambient_temperature''
            @ flag bad_env ''environmental_index''
            @ flag bad_intensity ''activity_intensity_factor'')))))))"

definition missing_msg :: "string list \<Rightarrow> nat \<Rightarrow> string" where
  "missing_msg missing row_num =
     ''ERROR: Missing required field(s): '' @ join '', '' missing
     @ '' in row '' @ str_of_nat row_num @ ''.''"

definition invalid_msg :: "string list \<Rightarrow> nat \<Rightarrow> string" where
  "invalid_msg invalid row_num =
     ''ERROR: Invalid value for the field(s): '' @ join '', '' invalid
     @ '' in row '' @ str_of_nat row_num @ ''. Please correct and resubmit.''"

text \<open>The body of the loop over the records: the error string it appends, if any.\<close>

definition check_record :: "pylib \<Rightarrow> nat \<Rightarrow> pyval \<Rightarrow> pyerror + string option" where
  "check_record lib row_num record =
     bnd (missing_loop required_fields record) (\<lambda>missing.
       if missing \<noteq> [] then Inr (Some (missing_msg missing row_num))
       else bnd (invalid_fields lib record) (\<lambda>invalid.
         if invalid \<noteq> [] then Inr (Some (invalid_msg invalid row_num)) else Inr None))"

text \<open>The loop over \<^verbatim>\<open>enumerate(data)\<close>; \<open>i\<close> is the index of the next record and
  \<open>errs\<close> the errors accumulated so far.\<close>

fun validate_records :: "pylib \<Rightarrow> nat \<Rightarrow> pyval list \<Rightarrow> string list \<Rightarrow> pyerror + string list" where
  "validate_records lib i [] errs = Inr errs"
| "validate_records lib i (record # rest) errs =
     bnd (check_record lib (i + 1) record) (\<lambda>outcome.
       validate_records lib (i + 1) rest
         (case outcome of None \<Rightarrow> errs | Some msg \<Rightarrow> errs @ [msg]))"

text \<open>\<^verbatim>\<open>all(field in record for record in data)\<close> stops at the first record without the
  field.\<close>

fun all_contain :: "string \<Rightarrow> pyval list \<Rightarrow> pyerror + bool" where
  "all_contain field [] = Inr True"
| "all_contain field (record # rest) =
     bnd (py_contains field record) (\<lambda>present.
       if present then all_contain field rest else Inr False)"

fun fields_check_loop :: "string list \<Rightarrow> pyval list \<Rightarrow> pyerror + (string \<times> string) list" where
  "fields_check_loop [] records = Inr []"
| "fields_check_loop (field # others) records =
     bnd (all_contain field records) (\<lambda>everywhere.
     bnd (fields_check_loop others records) (\<lambda>rest.
       Inr ((field, if everywhere then ''present'' else ''missing'') # rest)))"

definition generate_validation_report :: "validation_results \<Rightarrow> string" where
  "generate_validation_report results =
     ''# Data Validation Report'' @ nl
     @ ''## Data Structure Check:'' @ nl
     @ ''- Number of users: '' @ str_of_nat (num_users results) @ nl
     @ ''- Number of fields per record: '' @ str_of_nat (length required_fields) @ nl @ nl
     @ ''## Required Fields Check:'' @ nl
     @ concat (map (\<lambda>(field, st).
                 ''- '' @ field @ '': '' @ (if st = ''present'' then ''valid'' else ''invalid'')
                 @ nl) (fields_check results))
     @ nl @ ''## Validation Summary:'' @ nl
     @ (if errors results = []
        then ''Data validation is successful! Would you like to proceed with analysis or provide another dataset?''
        else concat (map (\<lambda>error. ''- '' @ error @ nl) (errors results)))"

definition validate_data :: "pylib \<Rightarrow> pyval \<Rightarrow> pyerror + (bool \<times> string \<times> validation_results)" where
  "validate_data lib data =
     bnd (py_len data) (\<lambda>n.
       if n = 0
       then Inr (False, ''ERROR: No data provided.'',
                 \<lparr> num_users = n, fields_check = [], errors = [] \<rparr>)
       else
         bnd (py_iter data) (\<lambda>records.
         bnd (validate_records lib 0 records []) (\<lambda>errs.
         bnd (fields_check_loop required_fields records) (\<lambda>fc.
           let results = \<lparr> num_users = n, fields_check = fc, errors = errs \<rparr>
           in Inr (errs = [], generate_validation_report results, results)))))"

section \<open>The parser: \<^verbatim>\<open>parse_input_data\<close>\<close>

definition starts_with_brace :: "string \<Rightarrow> bool" where
  "starts_with_brace s = (case s of [] \<Rightarrow> False | c # cs \<Rightarrow> c = CHR 0x7B)"

text \<open>The dictionary comprehension over the columns: a later column with the same header
  name overwrites the value of an earlier one.\<close>

definition build_record :: "string list \<Rightarrow> string list \<Rightarrow> (string \<times> pyval) list" where
  "build_record headers row =
     foldl (\<lambda>d (h, x). AList.update h (PStr x) d) [] (zip headers row)"

text \<open>The two conversion passes: \<^verbatim>\<open>record[field] = int(record[field])\<close> inside
  \<^verbatim>\<open>try ... except ValueError: pass\<close>, for a field that is in the record.\<close>

definition coerce_int :: "pylib \<Rightarrow> string \<Rightarrow> (string \<times> pyval) list \<Rightarrow> pyerror + (string \<times> pyval) list" where
  "coerce_int lib field d =
     (case map_of d field of
        None \<Rightarrow> Inr d
      | Some v \<Rightarrow>
          (case py_int lib v of
             Inr i \<Rightarrow> Inr (AList.update field (PInt i) d)
           | Inl e \<Rightarrow> if e = ValueError then Inr d else Inl e))"

definition coerce_float :: "pylib \<Rightarrow> string \<Rightarrow> (string \<times> pyval) list \<Rightarrow> pyerror + (string \<times> pyval) list" where
  "coerce_float lib field d =
     (case map_of d field of
        None \<Rightarrow> Inr d
      | Some v \<Rightarrow>
          (case py_float lib v of
             Inr x \<Rightarrow> Inr (AList.update field (PFloat x) d)
           | Inl e \<Rightarrow> if e = ValueError then Inr d else Inl e))"

fun coerce_loop ::
  "(string \<Rightarrow> (string \<times> pyval) list \<Rightarrow> pyerror + (string \<times> pyval) list) \<Rightarrow> string list
     \<Rightarrow> (string \<times> pyval) list \<Rightarrow> pyerror + (string \<times> pyval) list" where
  "coerce_loop step [] d = Inr d"
| "coerce_loop step (field # others) d = bnd (step field d) (coerce_loop step others)"

definition row_record :: "pylib \<Rightarrow> string list \<Rightarrow> string list \<Rightarrow> pyerror + (string \<times> pyval) list" where
  "row_record lib headers row =
     bnd (coerce_loop (coerce_int lib) [''current_steps'', ''heart_rate'']
            (build_record headers row))
       (coerce_loop (coerce_float lib)
          [''ambient_temperature'', ''environmental_index'', ''activity_intensity_factor''])"

text \<open>The loop over the data rows; a row whose length differs from the header's is skipped.\<close>

fun csv_rows :: "pylib \<Rightarrow> string list \<Rightarrow> string list list \<Rightarrow> pyerror + pyval list" where
  "csv_rows lib headers [] = Inr []"
| "csv_rows lib headers (row # rows) =
     (if length row \<noteq> length headers then csv_rows lib headers rows
      else bnd (row_record lib headers row) (\<lambda>record.
           bnd (csv_rows lib headers rows) (\<lambda>records. Inr (PDict record # records))))"

text \<open>The body of the \<^verbatim>\<open>try\<close> block, applied to the stripped text.\<close>

definition parse_body :: "pylib \<Rightarrow> string \<Rightarrow> pyerror + pyval" where
  "parse_body lib data_str =
     (if starts_with_brace data_str then
        bnd (json_loads lib data_str) (\<lambda>data_dict.
        bnd (py_contains ''users'' data_dict) (\<lambda>has_users.
          if has_users then py_getitem data_dict ''users'' else Inr (PList [data_dict])))
      else if CHR '','' \<in> set data_str then
        bnd (csv_reader lib data_str) (\<lambda>csv_data.
          case csv_data of
            header # row # rows \<Rightarrow>
              bnd (csv_rows lib (map strip header) (row # rows)) (\<lambda>records.
                Inr (PList records))
          | _ \<Rightarrow> Inr (PList []))
      else Inr (PList []))"

text \<open>\<^verbatim>\<open>except Exception: return []\<close>.\<close>

definition parse_input_data :: "pylib \<Rightarrow> string \<Rightarrow> pyval" where
  "parse_input_data lib data_str =
     (case parse_body lib (strip data_str) of Inl e \<Rightarrow> PList [] | Inr data \<Rightarrow> data)"

section \<open>The report renderer: \<^verbatim>\<open>generate_report\<close>\<close>

text \<open>Characters of the report's fixed text that cannot stand in a string literal here:
  the backslash, the double quote and the sign U+2265 (written as its UTF-8 bytes).\<close>

definition bs :: string where
  "bs = [CHR 0x5C]"

definition dq :: string where
  "dq = [CHR 0x22]"

definition ge_sign :: string where
  "ge_sign = [CHR 0xE2, CHR 0x89, CHR 0xA5]"

text \<open>The loop echoing the input fields.\<close>

fun input_lines :: "pylib \<Rightarrow> pyval \<Rightarrow> string list \<Rightarrow> pyerror + string" where
  "input_lines lib user_data [] = Inr []"
| "input_lines lib user_data (field # others) =
     bnd (py_getitem user_data field) (\<lambda>v.
     bnd (input_lines lib user_data others) (\<lambda>rest.
       Inr (''- '' @ field @ '': '' @ str_of lib v @ nl @ rest)))"

text \<open>The text an f-string inserts for a computed float and for the predicted activity.\<close>

definition str_float :: "pylib \<Rightarrow> xfloat \<Rightarrow> string" where
  "str_float lib a =
     (case a of
        Fin x \<Rightarrow> str_of lib (PFloat x)
      | PosInf \<Rightarrow> ''inf''
      | NegInf \<Rightarrow> ''-inf''
      | NaN \<Rightarrow> ''nan'')"

definition str_result :: "pylib \<Rightarrow> pyresult \<Rightarrow> string" where
  "str_result lib p =
     (case p of
        RInt i \<Rightarrow> str_of lib (PInt i)
      | RFloat a \<Rightarrow> str_float lib a
      | RSeq v \<Rightarrow> str_of lib v)"

definition generate_report :: "pylib \<Rightarrow> metrics \<Rightarrow> pyerror + string" where
  "generate_report lib m =
     (let user_data = input_data m; c = calcs m; fm = str_float lib;
          predicted = str_result lib (predicted_activity c) in
      bnd (py_getitem user_data ''user_id'') (\<lambda>uid.
      bnd (input_lines lib user_data required_fields) (\<lambda>echoed.
      bnd (py_getitem user_data ''current_steps'') (\<lambda>steps.
      bnd (py_getitem user_data ''activity_intensity_factor'') (\<lambda>intensity.
      bnd (py_getitem user_data ''heart_rate'') (\<lambda>heart_rate.
      bnd (py_getitem user_data ''environmental_index'') (\<lambda>env_index.
      bnd (py_getitem user_data ''ambient_temperature'') (\<lambda>temp.
      bnd (table_lookup heart_rate_factors (heart_rate_category c)) (\<lambda>heart_factor_value.
      bnd (table_lookup env_factors (environmental_quality c)) (\<lambda>env_factor_value.
        Inr (''# Health Monitoring Summary'' @ nl @ nl
          @ ''**User ID:** '' @ str_of lib uid @ nl @ nl
          @ ''---'' @ nl @ nl
          @ ''## Input Data:'' @ nl
          @ echoed
          @ nl @ ''---'' @ nl @ nl
          @ ''## Detailed Calculations:'' @ nl @ nl
          @ ''1. Predicted Activity Calculation:'' @ nl
          @ '' - Formula: $$ '' @ bs @ ''text{Predicted Activity} = '' @ bs
          @ ''text{current_steps} '' @ bs @ ''times '' @ bs
          @ ''text{activity_intensity_factor} $$'' @ nl
          @ '' - Steps: Multiply current_steps by activity_intensity_factor.'' @ nl
          @ '' - Calculation: '' @ str_of lib steps @ '' '' @ bs @ ''times ''
          @ str_of lib intensity @ '' = '' @ predicted @ nl
          @ '' - Calculated Value: **'' @ predicted @ '' steps**''
          @ nl @ nl
          @ ''2. Heart Rate Category:'' @ nl
          @ '' - IF heart_rate < 60, THEN '' @ dq @ ''Below Optimal'' @ dq @ ''.'' @ nl
          @ '' - ELSE IF heart_rate between 60 and 100, THEN '' @ dq @ ''Optimal'' @ dq @ ''.''
          @ nl
          @ '' - ELSE, '' @ dq @ ''Above Optimal'' @ dq @ ''.'' @ nl
          @ '' - Given heart_rate = '' @ str_of lib heart_rate @ nl
          @ '' - Result: **'' @ heart_rate_category c @ ''**'' @ nl @ nl
          @ ''3. Environmental Quality Category:'' @ nl
          @ '' - IF environmental_index '' @ ge_sign @ '' 75, THEN '' @ dq @ ''Good'' @ dq
          @ ''.'' @ nl
          @ '' - ELSE IF environmental_index '' @ ge_sign @ '' 50, THEN '' @ dq @ ''Moderate''
          @ dq @ ''.'' @ nl
          @ '' - ELSE, '' @ dq @ ''Poor'' @ dq @ ''.'' @ nl
          @ '' - Given environmental_index = '' @ str_of lib env_index @ nl
          @ '' - Result: **'' @ environmental_quality c @ ''**'' @ nl @ nl
          @ ''4. Ambient Temperature Impact:'' @ nl
          @ '' - IF ambient_temperature between 15 and 25, THEN '' @ dq @ ''Ideal Temperature''
          @ dq @ ''.'' @ nl
          @ '' - ELSE IF ambient_temperature < 15, THEN '' @ dq @ ''Too Cold'' @ dq @ ''.'' @ nl
          @ '' - ELSE, '' @ dq @ ''Too Hot'' @ dq @ ''.'' @ nl
          @ '' - Given ambient_temperature = '' @ str_of lib temp @ nl
          @ '' - Result: **'' @ temperature_impact c @ ''**'' @ nl @ nl
          @ ''5. Composite Fitness Score Calculation:'' @ nl
          @ '' - Formula: $$ '' @ bs @ ''text{Composite Fitness Score} = '' @ bs @ ''left(''
          @ bs @ ''frac{'' @ bs @ ''text{Predicted Activity}}{10000} '' @ bs @ ''times 0.5''
          @ bs @ ''right) + '' @ bs @ ''left('' @ bs @ ''text{Heart Rate Factor} '' @ bs
          @ ''times 0.3'' @ bs @ ''right) + '' @ bs @ ''left('' @ bs
          @ ''text{Environmental Factor} '' @ bs @ ''times 0.2'' @ bs @ ''right) $$'' @ nl
          @ '' - Steps:'' @ nl
          @ ''   1. Normalized activity: $'' @ predicted @ '' '' @ bs
          @ ''div 10000 '' @ bs @ ''times 0.5 = '' @ fm (normalized_activity c) @ ''$'' @ nl
          @ ''   2. Heart Rate Factor: Heart rate category is '' @ dq @ heart_rate_category c
          @ dq @ '' which gives a factor of '' @ str_of lib heart_factor_value @ nl
          @ ''      Heart component: $'' @ str_of lib heart_factor_value @ '' '' @ bs
          @ ''times 0.3 = '' @ fm (heart_component c) @ ''$'' @ nl
          @ ''   3. Environmental Factor: Environmental quality is '' @ dq
          @ environmental_quality c @ dq @ '' which gives a factor of ''
          @ str_of lib env_factor_value @ nl
          @ ''      Environmental component: $'' @ str_of lib env_factor_value @ '' '' @ bs
          @ ''times 0.2 = '' @ fm (env_component c) @ ''$'' @ nl
          @ ''   4. Composite Fitness Score: $'' @ fm (normalized_activity c) @ '' + ''
          @ fm (heart_component c) @ '' + '' @ fm (env_component c) @ '' = ''
          @ fm (composite_fitness_score c) @ ''$'' @ nl
          @ '' - Calculated Value: **'' @ fm (composite_fitness_score c) @ ''**'' @ nl @ nl
          @ ''---'' @ nl @ nl
          @ ''## Final Recommendation:'' @ nl @ nl
          @ ''- Recommendation: **'' @ recommendation c @ ''**'' @ nl
          @ ''- Status: **'' @ status c @ ''**'' @ nl)))))))))))"

section \<open>The pipeline: \<^verbatim>\<open>process_data\<close>\<close>

text \<open>
  A run of \<open>process_data\<close>: the text it returns or the exception that leaves it, together
  with what it did on the way, namely the metrics it computed and the reports it rendered
  (the source's list \<^verbatim>\<open>results\<close>).
\<close>

record run =
  result :: "pyerror + string"
  computed :: "metrics list"
  rendered :: "string list"

definition format_error :: string where
  "format_error = ''ERROR: Invalid data format. Please provide data in CSV or JSON format.''"

fun process_records :: "pylib \<Rightarrow> pyval list \<Rightarrow> metrics list \<Rightarrow> string list \<Rightarrow> run" where
  "process_records lib [] ms results =
     \<lparr> result = Inr (nl @ nl @ join (nl @ nl @ ''---'' @ nl @ nl) results),
       computed = ms, rendered = results \<rparr>"
| "process_records lib (user_data # others) ms results =
     (case calculate_metrics user_data of
        Inl e \<Rightarrow> \<lparr> result = Inl e, computed = ms, rendered = results \<rparr>
      | Inr m \<Rightarrow>
          (case generate_report lib m of
             Inl e \<Rightarrow> \<lparr> result = Inl e, computed = ms @ [m], rendered = results \<rparr>
           | Inr report \<Rightarrow> process_records lib others (ms @ [m]) (results @ [report])))"

definition process_data_run :: "pylib \<Rightarrow> string \<Rightarrow> run" where
  "process_data_run lib data_str =
     (let data = parse_input_data lib data_str in
      if \<not> truthy data
      then \<lparr> result = Inr format_error, computed = [], rendered = [] \<rparr>
      else
        (case validate_data lib data of
           Inl e \<Rightarrow> \<lparr> result = Inl e, computed = [], rendered = [] \<rparr>
         | Inr (valid, validation_report, details) \<Rightarrow>
             if \<not> valid
             then \<lparr> result = Inr validation_report, computed = [], rendered = [] \<rparr>
             else
               (case py_iter data of
                  Inl e \<Rightarrow> \<lparr> result = Inl e, computed = [], rendered = [] \<rparr>
                | Inr users \<Rightarrow> process_records lib users [] [])))"

definition process_data :: "pylib \<Rightarrow> string \<Rightarrow> pyerror + string" where
  "process_data lib data_str = result (process_data_run lib data_str)"

section \<open>Typed records and the rules in the specification's words\<close>

text \<open>
  A typed user record, as the data model describes it: the six required fields, with
  \<open>user_id\<close> a string, \<open>current_steps\<close> and \<open>heart_rate\<close> positive integers,
  \<open>ambient_temperature\<close> a real number, \<open>environmental_index\<close> a real number in [0, 100]
  and \<open>activity_intensity_factor\<close> a positive real number. A real number is a float or an
  integer (the worked example of the specification writes temperature 20 and index 80).
\<close>

definition is_str :: "pyval option \<Rightarrow> bool" where
  "is_str v = (case v of Some (PStr s) \<Rightarrow> True | _ \<Rightarrow> False)"

definition pos_int :: "pyval option \<Rightarrow> bool" where
  "pos_int v = (case v of Some (PInt i) \<Rightarrow> 0 < i | _ \<Rightarrow> False)"

definition real_val :: "pyval option \<Rightarrow> real option" where
  "real_val v = (case v of Some (PInt i) \<Rightarrow> Some (of_int i) | Some (PFloat x) \<Rightarrow> Some x | _ \<Rightarrow> None)"

definition typed_record :: "(string \<times> pyval) list \<Rightarrow> bool" where
  "typed_record d =
     (is_str (map_of d ''user_id'')
      \<and> pos_int (map_of d ''current_steps'')
      \<and> pos_int (map_of d ''heart_rate'')
      \<and> real_val (map_of d ''ambient_temperature'') \<noteq> None
      \<and> (case real_val (map_of d ''environmental_index'') of
            None \<Rightarrow> False | Some x \<Rightarrow> 0 \<le> x \<and> x \<le> 100)
      \<and> (case real_val (map_of d ''activity_intensity_factor'') of
            None \<Rightarrow> False | Some x \<Rightarrow> 0 < x))"

text \<open>The numeric value a typed record holds in a field.\<close>

definition field_num :: "(string \<times> pyval) list \<Rightarrow> string \<Rightarrow> real" where
  "field_num d k = (case real_val (map_of d k) of Some x \<Rightarrow> x | None \<Rightarrow> 0)"

text \<open>
  The classification rules and factor tables in the specification's words, for comparison
  with what \<open>calculate_metrics\<close> computes.
\<close>

definition spec_heart_category :: "real \<Rightarrow> string" where
  "spec_heart_category hr =
     (if hr < 60 then ''Below Optimal'' else if hr \<le> 100 then ''Optimal''
      else ''Above Optimal'')"

definition spec_env_quality :: "real \<Rightarrow> string" where
  "spec_env_quality e =
     (if 75 \<le> e then ''Good'' else if 50 \<le> e then ''Moderate'' else ''Poor'')"

definition spec_temp_impact :: "real \<Rightarrow> string" where
  "spec_temp_impact t =
     (if 15 \<le> t \<and> t \<le> 25 then ''Ideal Temperature''
      else if t < 15 then ''Too Cold'' else ''Too Hot'')"

definition spec_heart_factor :: "string \<Rightarrow> real" where
  "spec_heart_factor c =
     (if c = ''Optimal'' then 1.0 else if c = ''Below Optimal'' then float_lit 0.8
      else if c = ''Above Optimal'' then float_lit 0.7 else 0)"

definition spec_env_factor :: "string \<Rightarrow> real" where
  "spec_env_factor c =
     (if c = ''Good'' then 1.0 else if c = ''Moderate'' then float_lit 0.8
      else if c = ''Poor'' then float_lit 0.6 else 0)"

text \<open>
  A typed record is in the float range when the conversion of the step count to a float, or
  for an integer factor the quotient of the product by 10000, does not overflow. The
  predicted activity of such a record, \<open>current_steps * activity_intensity_factor\<close>, is an
  integer when the factor is an integer, else the float product of the step count,
  converted to a float, with the factor. Its quotient by 10000 is the exact quotient rounded
  once for an integer, the float quotient for a float.
\<close>

definition predicted_product :: "(string \<times> pyval) list \<Rightarrow> pyresult" where
  "predicted_product d =
     (case (map_of d ''current_steps'', map_of d ''activity_intensity_factor'') of
        (Some (PInt s), Some (PInt a)) \<Rightarrow> RInt (s * a)
      | (Some (PInt s), Some (PFloat x)) \<Rightarrow> RFloat (xmul (to_float (of_int s)) (Fin x))
      | _ \<Rightarrow> RFloat NaN)"

definition quotient_10000 :: "pyresult \<Rightarrow> xfloat" where
  "quotient_10000 p =
     (case p of
        RInt n \<Rightarrow> to_float (of_int n / 10000)
      | RFloat a \<Rightarrow> xdiv a 10000
      | RSeq v \<Rightarrow> NaN)"

definition in_float_range :: "(string \<times> pyval) list \<Rightarrow> bool" where
  "in_float_range d =
     (case (map_of d ''current_steps'', map_of d ''activity_intensity_factor'') of
        (Some (PInt s), Some (PInt a)) \<Rightarrow> is_finite (to_float (of_int (s * a) / 10000))
      | (Some (PInt s), Some (PFloat x)) \<Rightarrow> is_finite (to_float (of_int s))
      | _ \<Rightarrow> False)"

definition round_result :: "pyresult \<Rightarrow> pyresult" where
  "round_result p = (case p of RFloat a \<Rightarrow> RFloat (xround2 a) | _ \<Rightarrow> p)"

text \<open>The three components and the composite fitness score by their formulas, in float
  arithmetic, before the rounding to two decimals: the weights are the floats of the
  literals 0.5, 0.3 and 0.2 (0.5 and 0.75 are binary64 numbers themselves).\<close>

definition normalized_formula :: "(string \<times> pyval) list \<Rightarrow> xfloat" where
  "normalized_formula d = xmul (quotient_10000 (predicted_product d)) (Fin 0.5)"

definition heart_formula :: "string \<Rightarrow> xfloat" where
  "heart_formula category = xmul (Fin (spec_heart_factor category)) (Fin (float_lit 0.3))"

definition env_formula :: "string \<Rightarrow> xfloat" where
  "env_formula quality = xmul (Fin (spec_env_factor quality)) (Fin (float_lit 0.2))"

definition composite_formula :: "(string \<times> pyval) list \<Rightarrow> xfloat" where
  "composite_formula d =
     xadd (xadd (normalized_formula d)
                (heart_formula (spec_heart_category (field_num d ''heart_rate''))))
          (env_formula (spec_env_quality (field_num d ''environmental_index'')))"

text \<open>The record of the specification's worked example.\<close>

definition example_U1 :: "(string \<times> pyval) list" where
  "example_U1 =
     [(''user_id'', PStr ''U1''), (''current_steps'', PInt 10000), (''heart_rate'', PInt 70),
      (''ambient_temperature'', PInt 20), (''environmental_index'', PInt 80),
      (''activity_intensity_factor'', PFloat 1.0)]"

text \<open>A record with the six required fields, built from its values, and a typed record
  whose step count is too large for a float.\<close>

definition user_record ::
  "string \<Rightarrow> int \<Rightarrow> int \<Rightarrow> pyval \<Rightarrow> pyval \<Rightarrow> pyval \<Rightarrow> (string \<times> pyval) list" where
  "user_record uid steps hr temp env intensity =
     [(''user_id'', PStr uid), (''current_steps'', PInt steps), (''heart_rate'', PInt hr),
      (''ambient_temperature'', temp), (''environmental_index'', env),
      (''activity_intensity_factor'', intensity)]"


text \<open>The calculations the specification prescribes for a typed record \<open>d\<close>.\<close>

definition expected_calcs :: "(string \<times> pyval) list \<Rightarrow> calculations" where
  "expected_calcs d =
     (let hc = spec_heart_category (field_num d ''heart_rate'');
          eq = spec_env_quality (field_num d ''environmental_index'');
          ti = spec_temp_impact (field_num d ''ambient_temperature'');
          optimal = (xge (composite_formula d) 0.75 \<and> hc = ''Optimal''
                      \<and> ti = ''Ideal Temperature'')
      in \<lparr> predicted_activity = round_result (predicted_product d),
           heart_rate_category = hc,
           environmental_quality = eq,
           temperature_impact = ti,
           normalized_activity = xround2 (normalized_formula d),
           heart_component = xround2 (heart_formula hc),
           env_component = xround2 (env_formula eq),
           composite_fitness_score = xround2 (composite_formula d),
           recommendation =
             (if optimal then ''Continue current fitness plan'' else ''Adjust fitness plan''),
           status = (if optimal then ''Optimal'' else ''Needs Adjustment'') \<rparr>)"

text \<open>The required fields a dictionary lacks, in the order of \<open>required_fields\<close>.\<close>

definition absent :: "(string \<times> pyval) list \<Rightarrow> string list" where
  "absent d = filter (\<lambda>field. map_of d field = None) required_fields"

text \<open>
  The validator's checks read as coercion checks: a value passes as an integer field when
  \<^verbatim>\<open>int\<close> converts it to a positive integer (an integer, \<^verbatim>\<open>True\<close>, a float of at least
  1, which truncates to a positive integer, or a string that parses to a positive integer), and
  as a real field when \<^verbatim>\<open>float\<close> converts it to a number inside the field's range.
\<close>

definition int_accepted :: "pylib \<Rightarrow> pyval option \<Rightarrow> bool" where
  "int_accepted lib v =
     (case v of
        Some (PInt i) \<Rightarrow> 0 < i
      | Some (PBool b) \<Rightarrow> b
      | Some (PFloat x) \<Rightarrow> 1 \<le> x
      | Some (PStr s) \<Rightarrow> (case int_of_str lib s of Some i \<Rightarrow> 0 < i | None \<Rightarrow> False)
      | _ \<Rightarrow> False)"

definition float_accepted :: "pylib \<Rightarrow> (real \<Rightarrow> bool) \<Rightarrow> pyval option \<Rightarrow> bool" where
  "float_accepted lib in_range v =
     (case v of
        Some (PInt i) \<Rightarrow> in_range (of_int i)
      | Some (PBool b) \<Rightarrow> in_range (if b then 1 else 0)
      | Some (PFloat x) \<Rightarrow> in_range x
      | Some (PStr s) \<Rightarrow> (case float_of_str lib s of Some x \<Rightarrow> in_range x | None \<Rightarrow> False)
      | _ \<Rightarrow> False)"

definition bad_fields :: "pylib \<Rightarrow> (string \<times> pyval) list \<Rightarrow> string list" where
  "bad_fields lib d =
     flag (\<not> is_str (map_of d ''user_id'')) ''user_id''
     @ flag (\<not> int_accepted lib (map_of d ''current_steps'')) ''current_steps''
     @ flag (\<not> int_accepted lib (map_of d ''heart_rate'')) ''heart_rate''
     @ flag (\<not> float_accepted lib (\<lambda>x. True) (map_of d ''ambient_temperature''))
         ''ambient_temperature''
     @ flag (\<not> float_accepted lib (\<lambda>x. 0 \<le> x \<and> x \<le> 100) (map_of d ''environmental_index''))
         ''environmental_index''
     @ flag (\<not> float_accepted lib (\<lambda>x. 0 < x) (map_of d ''activity_intensity_factor''))
         ''activity_intensity_factor''"

text \<open>The error strings the specification prescribes for the record in row \<open>n\<close>: one
  missing-field error when a field is absent (and then nothing else), otherwise one
  invalid-value error when a check fails, otherwise none.\<close>

definition row_errors :: "pylib \<Rightarrow> nat \<Rightarrow> (string \<times> pyval) list \<Rightarrow> string list" where
  "row_errors lib n d =
     (if absent d \<noteq> [] then [missing_msg (absent d) n]
      else if bad_fields lib d \<noteq> [] then [invalid_msg (bad_fields lib d) n]
      else [])"

definition batch_errors :: "pylib \<Rightarrow> nat \<Rightarrow> (string \<times> pyval) list list \<Rightarrow> string list" where
  "batch_errors lib i ds = concat (map2 (row_errors lib) [Suc i ..< Suc i + length ds] ds)"

text \<open>The batch-wide presence table and the acceptance of a whole record.\<close>

definition presence_table :: "(string \<times> pyval) list list \<Rightarrow> (string \<times> string) list" where
  "presence_table ds =
     map (\<lambda>field. (field, if list_all (\<lambda>d. map_of d field \<noteq> None) ds then ''present''
                          else ''missing'')) required_fields"

definition coercion_accepts :: "pylib \<Rightarrow> (string \<times> pyval) list \<Rightarrow> bool" where
  "coercion_accepts lib d =
     (is_str (map_of d ''user_id'')
      \<and> int_accepted lib (map_of d ''current_steps'')
      \<and> int_accepted lib (map_of d ''heart_rate'')
      \<and> float_accepted lib (\<lambda>x. True) (map_of d ''ambient_temperature'')
      \<and> float_accepted lib (\<lambda>x. 0 \<le> x \<and> x \<le> 100) (map_of d ''environmental_index'')
      \<and> float_accepted lib (\<lambda>x. 0 < x) (map_of d ''activity_intensity_factor''))"

text \<open>
  The delimited-text reader in the specification's words: the value a record holds under a
  header name is the row's text in that column, converted to a number for the five numeric
  field names when the conversion succeeds; a column permutation \<open>p\<close> lists, for each new
  position, the old position it takes its column from.
\<close>

definition coerced_value :: "pylib \<Rightarrow> string \<Rightarrow> string \<Rightarrow> pyval" where
  "coerced_value lib h x =
     (if h \<in> set [''current_steps'', ''heart_rate'']
      then (case int_of_str lib x of Some i \<Rightarrow> PInt i | None \<Rightarrow> PStr x)
      else if h \<in> set [''ambient_temperature'', ''environmental_index'',
                        ''activity_intensity_factor'']
      then (case float_of_str lib x of Some r \<Rightarrow> PFloat r | None \<Rightarrow> PStr x)
      else PStr x)"

definition row_map :: "pylib \<Rightarrow> string list \<Rightarrow> string list \<Rightarrow> string \<Rightarrow> pyval option" where
  "row_map lib headers row h = map_option (coerced_value lib h) (map_of (zip headers row) h)"

definition permute :: "nat list \<Rightarrow> 'a list \<Rightarrow> 'a list" where
  "permute p xs = map (\<lambda>j. xs ! j) p"

definition is_perm :: "nat list \<Rightarrow> nat \<Rightarrow> bool" where
  "is_perm p n = (sort p = [0 ..< n])"

definition kept_rows :: "string list \<Rightarrow> string list list \<Rightarrow> string list list" where
  "kept_rows header rows = filter (\<lambda>row. length row = length header) rows"

text \<open>Auxiliary notions for the conversion passes.\<close>

definition str_at :: "(string \<times> pyval) list \<Rightarrow> string \<Rightarrow> bool" where
  "str_at d k = (case map_of d k of None \<Rightarrow> True | Some (PStr x) \<Rightarrow> True | _ \<Rightarrow> False)"

definition conv_int :: "pylib \<Rightarrow> pyval \<Rightarrow> pyval" where
  "conv_int lib v =
     (case v of PStr x \<Rightarrow> (case int_of_str lib x of Some i \<Rightarrow> PInt i | None \<Rightarrow> PStr x)
      | _ \<Rightarrow> v)"

definition conv_float :: "pylib \<Rightarrow> pyval \<Rightarrow> pyval" where
  "conv_float lib v =
     (case v of PStr x \<Rightarrow> (case float_of_str lib x of Some r \<Rightarrow> PFloat r | None \<Rightarrow> PStr x)
      | _ \<Rightarrow> v)"

text \<open>A delimited text with one valid and one invalid record.\<close>

definition two_row_csv :: string where
  "two_row_csv =
     ''user_id,current_steps,heart_rate,ambient_temperature,environmental_index,activity_intensity_factor''
     @ nl @ ''U1,5000,70,20,80,1.1'' @ nl @ ''U2,abc,70,20,80,1.1''"


section \<open>A sample library for concrete evaluations\<close>

text \<open>
  The concrete evaluations below need a library. The sample's string conversions follow
  Python on decimal literals: optional surrounding whitespace, an optional sign, digits with
  single underscores between them and, for \<^verbatim>\<open>float\<close>, an optional fraction and exponent
  (the words \<^verbatim>\<open>inf\<close> and \<^verbatim>\<open>nan\<close>, which have no real value, are left out, and the
  value of a literal is taken as written, where Python rounds it to the nearest float: the
  evaluations below only compare such a value with the bounds of its field). Its
  delimited-text reader follows \<^verbatim>\<open>csv.reader\<close> on text without quotes and carriage returns:
  one row per line, an empty line giving an empty row, fields separated by commas. Its JSON
  reader rejects every text, as \<^verbatim>\<open>json.loads\<close> rejects a text that is not JSON, and is used
  on such texts only. The formatter is left open.
\<close>

fun digits_val :: "nat \<Rightarrow> string \<Rightarrow> nat option" where
  "digits_val acc [] = Some acc"
| "digits_val acc (c # cs) =
     (case map_of (zip ''0123456789'' [0 ..< 10]) c of
        None \<Rightarrow> None
      | Some d \<Rightarrow> digits_val (10 * acc + d) cs)"

definition dec_nat :: "string \<Rightarrow> nat option" where
  "dec_nat s =
     (if s = [] \<or> hd s = CHR ''_'' \<or> last s = CHR ''_'' \<or> sublist ''__'' s then None
      else digits_val 0 (filter (\<lambda>c. c \<noteq> CHR ''_'') s))"

definition signed :: "string \<Rightarrow> bool \<times> string" where
  "signed s =
     (case s of
        [] \<Rightarrow> (False, [])
      | c # cs \<Rightarrow> if c = CHR ''-'' then (True, cs) else if c = CHR ''+'' then (False, cs)
                  else (False, s))"

definition sample_int_of_str :: "string \<Rightarrow> int option" where
  "sample_int_of_str s =
     (let (neg, body) = signed (strip s)
      in case dec_nat body of
           None \<Rightarrow> None
         | Some n \<Rightarrow> Some (if neg then - int n else int n))"

text \<open>\<open>cut c s\<close> splits \<open>s\<close> at the first \<open>c\<close>; the second part is \<open>None\<close> when there is
  none.\<close>

definition cut :: "char \<Rightarrow> string \<Rightarrow> string \<times> string option" where
  "cut c s =
     (takeWhile (\<lambda>x. x \<noteq> c) s,
      case dropWhile (\<lambda>x. x \<noteq> c) s of [] \<Rightarrow> None | _ # rest \<Rightarrow> Some rest)"

definition mantissa :: "string \<Rightarrow> (nat \<times> nat) option" where
  "mantissa s =
     (case cut CHR ''.'' s of
        (ip, None) \<Rightarrow> map_option (\<lambda>n. (n, 0)) (dec_nat ip)
      | (ip, Some fp) \<Rightarrow>
          if ip = [] then map_option (\<lambda>n. (n, length (filter (\<lambda>c. c \<noteq> CHR ''_'') fp))) (dec_nat fp)
          else if fp = [] then map_option (\<lambda>n. (n, 0)) (dec_nat ip)
          else (case (dec_nat ip, dec_nat fp) of
                  (Some a, Some b) \<Rightarrow>
                    (let k = length (filter (\<lambda>c. c \<noteq> CHR ''_'') fp)
                     in Some (a * 10 ^ k + b, k))
                | _ \<Rightarrow> None))"

definition sample_float_of_str :: "string \<Rightarrow> real option" where
  "sample_float_of_str s =
     (let (neg, body) = signed (strip s);
          (m, ex) = cut CHR ''e'' (map (\<lambda>c. if c = CHR ''E'' then CHR ''e'' else c) body);
          exponent = (case ex of
                        None \<Rightarrow> Some 0
                      | Some t \<Rightarrow> (let (eneg, digits) = signed t
                                   in map_option (\<lambda>n. if eneg then - int n else int n)
                                        (dec_nat digits)))
      in case (mantissa m, exponent) of
           (Some (n, k), Some e) \<Rightarrow>
             Some ((if neg then - 1 else 1) * of_nat n * 10 powi (e - int k))
         | _ \<Rightarrow> None)"

fun split_on :: "char \<Rightarrow> string \<Rightarrow> string list" where
  "split_on c [] = [[]]"
| "split_on c (x # xs) =
     (if x = c then [] # split_on c xs
      else (case split_on c xs of [] \<Rightarrow> [[x]] | r # rs \<Rightarrow> (x # r) # rs))"

definition text_lines :: "string \<Rightarrow> string list" where
  "text_lines s =
     (if s = [] then []
      else (let ls = split_on (CHR 0x0A) s in if last ls = [] then butlast ls else ls))"

definition sample_csv_reader :: "string \<Rightarrow> pyerror + string list list" where
  "sample_csv_reader s =
     Inr (map (\<lambda>line. if line = [] then [] else split_on CHR '','' line) (text_lines s))"

definition sample_lib :: "(pyval \<Rightarrow> string) \<Rightarrow> pylib" where
  "sample_lib fmt =
     \<lparr> json_loads = (\<lambda>s. Inl ValueError),
       csv_reader = sample_csv_reader,
       int_of_str = sample_int_of_str,
       float_of_str = sample_float_of_str,
       str_of = fmt \<rparr>"

text \<open>Records used in the concrete evaluations.\<close>

definition string_steps_record :: "(string \<times> pyval) list" where
  "string_steps_record =
     [(''user_id'', PStr ''U1''), (''current_steps'', PStr ''5000''), (''heart_rate'', PInt 70),
      (''ambient_temperature'', PInt 20), (''environmental_index'', PInt 80),
      (''activity_intensity_factor'', PFloat 1.0)]"





section \<open>Properties of float arithmetic\<close>

text \<open>The exponent function brackets its argument, so a float is determined by checking an
  exponent and a significand.\<close>

lemma bitlen_real_bounds:
  assumes "1 \<le> (a::real)"
  shows "2 powi (bitlen \<lfloor>a\<rfloor> - 1) \<le> a" and "a < 2 powi (bitlen \<lfloor>a\<rfloor>)"
proof -
  let ?n = "\<lfloor>a\<rfloor>"
  let ?b = "bitlen ?n"
  from assms have n: "0 < ?n" by simp
  from bitlen_bounds[OF n] have lo: "2 ^ nat (?b - 1) \<le> ?n" and hi: "?n < 2 ^ nat ?b"
    by auto
  have b1: "1 \<le> ?b"
    using n by (simp add: bitlen_alt_def)
  have "2 powi (?b - 1) = (2::real) ^ nat (?b - 1)"
    using b1 by (simp add: power_int_nonneg_exp)
  also have "\<dots> = real_of_int (2 ^ nat (?b - 1))" by simp
  also have "\<dots> \<le> real_of_int ?n" using lo by (simp only: of_int_le_iff)
  also have "\<dots> \<le> a" by simp
  finally show "2 powi (?b - 1) \<le> a" .
  from hi have "?n + 1 \<le> 2 ^ nat ?b" by simp
  then have "real_of_int (?n + 1) \<le> real_of_int (2 ^ nat ?b)" by (simp only: of_int_le_iff)
  moreover have "a < real_of_int (?n + 1)" by linarith
  ultimately have "a < real_of_int (2 ^ nat ?b)" by linarith
  also have "\<dots> = 2 powi ?b"
    using b1 by (simp add: power_int_nonneg_exp)
  finally show "a < 2 powi ?b" .
qed

lemma binary_exponent_bounds:
  assumes "x \<noteq> 0"
  shows "2 powi (binary_exponent x) \<le> \<bar>x\<bar>" and "\<bar>x\<bar> < 2 powi (binary_exponent x + 1)"
proof -
  let ?a = "\<bar>x\<bar>"
  from assms have pos: "0 < ?a" by simp
  have "2 powi (binary_exponent x) \<le> ?a \<and> ?a < 2 powi (binary_exponent x + 1)"
  proof (cases "1 \<le> ?a")
    case True
    from bitlen_real_bounds[OF True] True show ?thesis
      by (simp add: binary_exponent_def)
  next
    case False
    let ?y = "1 / ?a"
    let ?k = "bitlen \<lfloor>?y\<rfloor> - 1"
    from False pos have y1: "1 \<le> ?y" by (simp add: field_simps)
    from bitlen_real_bounds[OF y1] have lo: "2 powi ?k \<le> ?y" and hi: "?y < 2 powi (?k + 1)"
      by simp_all
    have p: "0 < (2::real) powi ?k" "0 < (2::real) powi (?k + 1)" by simp_all
    have up: "?a \<le> 2 powi (- ?k)"
    proof -
      have e: "(2::real) powi (- ?k) = inverse (2 powi ?k)"
        by (simp only: power_int_minus)
      have i: "inverse ?y = ?a" by simp
      have "inverse ?y \<le> inverse (2 powi ?k)"
        using lo p(1) by (intro le_imp_inverse_le) simp_all
      then show ?thesis
        by (simp only: e i)
    qed
    from hi pos p have dn: "2 powi (- ?k - 1) < ?a"
    proof -
      have "2 powi (- ?k - 1) = inverse (2 powi (?k + 1) :: real)"
        by (simp flip: power_int_minus)
      also have "\<dots> < inverse ?y"
      proof (rule less_imp_inverse_less)
        show "?y < 2 powi (?k + 1)" by (rule hi)
        show "0 < ?y" using pos by simp
      qed
      also have "\<dots> = ?a" by simp
      finally show ?thesis .
    qed
    show ?thesis
    proof (cases "2 powi (- ?k) \<le> ?a")
      case True
      with up have eq: "?a = 2 powi (- ?k)" by simp
      have "(2::real) powi (- ?k) < 2 powi (- ?k + 1)"
        by (intro power_int_strict_increasing) simp_all
      with True eq False show ?thesis
        by (simp add: binary_exponent_def Let_def)
    next
      case F: False
      then have "?a < 2 powi (- ?k)" by simp
      with dn F False show ?thesis
        by (simp add: binary_exponent_def Let_def)
    qed
  qed
  then show "2 powi (binary_exponent x) \<le> \<bar>x\<bar>" and "\<bar>x\<bar> < 2 powi (binary_exponent x + 1)"
    by simp_all
qed

lemma binary_exponent_eqI:
  assumes "2 powi e \<le> \<bar>x\<bar>" and "\<bar>x\<bar> < 2 powi (e + 1)"
  shows "binary_exponent x = e"
proof -
  have "0 < (2::real) powi e" by simp
  with assms(1) have "0 < \<bar>x\<bar>" by linarith
  then have nz: "x \<noteq> 0" by simp
  note b = binary_exponent_bounds[OF nz]
  have "\<not> e + 1 \<le> binary_exponent x"
  proof
    assume "e + 1 \<le> binary_exponent x"
    then have "(2::real) powi (e + 1) \<le> 2 powi (binary_exponent x)"
      by (intro power_int_increasing) simp_all
    with b(1) assms(2) show False by linarith
  qed
  moreover have "\<not> binary_exponent x + 1 \<le> e"
  proof
    assume "binary_exponent x + 1 \<le> e"
    then have "(2::real) powi (binary_exponent x + 1) \<le> 2 powi e"
      by (intro power_int_increasing) simp_all
    with b(2) assms(1) show False by linarith
  qed
  ultimately show ?thesis by linarith
qed

lemma to_float_eqI:
  assumes "2 powi e \<le> \<bar>x\<bar>" and "\<bar>x\<bar> < 2 powi (e + 1)" and "- 1022 \<le> e"
    and "round_half_even (x / 2 powi (e - 52)) = n"
    and "\<bar>of_int n * 2 powi (e - 52)\<bar> < (2::real) powi 1024"
  shows "to_float x = Fin (of_int n * 2 powi (e - 52))"
proof -
  have "0 < (2::real) powi e" by simp
  with assms(1) have "0 < \<bar>x\<bar>" by linarith
  then have nz: "x \<noteq> 0" by simp
  have m: "max (binary_exponent x) (- 1022) = e"
    using binary_exponent_eqI[OF assms(1,2)] assms(3) by simp
  show ?thesis
    using nz assms(4,5) by (simp add: to_float_def m Let_def)
qed



lemma to_float_one: "to_float 1 = Fin 1"
  using to_float_eqI[of 0 1 "2 ^ 52"]
  by (simp add: round_half_even_def Let_def power_int_minus)

text \<open>The binary64 values the worked examples below pass through.\<close>

lemma to_float_1: "to_float (24 / 625) = Fin (5534023222112865 / 144115188075855872)"
  using to_float_eqI[of "-5" "24 / 625" "5534023222112865"]
  by (simp add: round_half_even_def Let_def power_int_minus)

lemma to_float_2: "to_float (3 / 25) = Fin (1080863910568919 / 9007199254740992)"
  using to_float_eqI[of "-4" "3 / 25" "8646911284551352"]
  by (simp add: round_half_even_def Let_def power_int_minus)

lemma to_float_3: "to_float (19471113219505603967277331424215 / 162259276829213363391578010288128) = Fin (1080863910568919 / 9007199254740992)"
  using to_float_eqI[of "-4" "19471113219505603967277331424215 / 162259276829213363391578010288128" "8646911284551352"]
  by (simp add: round_half_even_def Let_def power_int_minus)

lemma to_float_4: "to_float (1 / 5) = Fin (3602879701896397 / 18014398509481984)"
  using to_float_eqI[of "-3" "1 / 5" "7205759403792794"]
  by (simp add: round_half_even_def Let_def power_int_minus)

lemma to_float_5: "to_float (3602879701896397 / 18014398509481984) = Fin (3602879701896397 / 18014398509481984)"
  using to_float_eqI[of "-3" "3602879701896397 / 18014398509481984" "7205759403792794"]
  by (simp add: round_half_even_def Let_def power_int_minus)

lemma to_float_6: "to_float (5404319552844595 / 18014398509481984) = Fin (5404319552844595 / 18014398509481984)"
  using to_float_eqI[of "-2" "5404319552844595 / 18014398509481984" "5404319552844595"]
  by (simp add: round_half_even_def Let_def power_int_minus)

lemma to_float_7: "to_float (3 / 10) = Fin (5404319552844595 / 18014398509481984)"
  using to_float_eqI[of "-2" "3 / 10" "5404319552844595"]
  by (simp add: round_half_even_def Let_def power_int_minus)

lemma to_float_8: "to_float (2972375754064527 / 9007199254740992) = Fin (2972375754064527 / 9007199254740992)"
  using to_float_eqI[of "-2" "2972375754064527 / 9007199254740992" "5944751508129054"]
  by (simp add: round_half_even_def Let_def power_int_minus)

lemma to_float_9: "to_float (33 / 100) = Fin (5944751508129055 / 18014398509481984)"
  using to_float_eqI[of "-2" "33 / 100" "5944751508129055"]
  by (simp add: round_half_even_def Let_def power_int_minus)

lemma to_float_10: "to_float (5944751508129055 / 18014398509481984) = Fin (5944751508129055 / 18014398509481984)"
  using to_float_eqI[of "-2" "5944751508129055 / 18014398509481984" "5944751508129055"]
  by (simp add: round_half_even_def Let_def power_int_minus)

lemma to_float_11: "to_float (47 / 100) = Fin (2116691824864133 / 4503599627370496)"
  using to_float_eqI[of "-2" "47 / 100" "8466767299456532"]
  by (simp add: round_half_even_def Let_def power_int_minus)

lemma to_float_12: "to_float (4278419646001971 / 9007199254740992) = Fin (4278419646001971 / 9007199254740992)"
  using to_float_eqI[of "-2" "4278419646001971 / 9007199254740992" "8556839292003942"]
  by (simp add: round_half_even_def Let_def power_int_minus)

lemma to_float_13: "to_float (1 / 2) = Fin (1 / 2)"
  using to_float_eqI[of "-1" "1 / 2" "4503599627370496"]
  by (simp add: round_half_even_def Let_def power_int_minus)

lemma to_float_14: "to_float (3 / 5) = Fin (5404319552844595 / 9007199254740992)"
  using to_float_eqI[of "-1" "3 / 5" "5404319552844595"]
  by (simp add: round_half_even_def Let_def power_int_minus)

lemma to_float_15: "to_float (11349071060973649 / 18014398509481984) = Fin (709316941310853 / 1125899906842624)"
  using to_float_eqI[of "-1" "11349071060973649 / 18014398509481984" "5674535530486824"]
  by (simp add: round_half_even_def Let_def power_int_minus)

lemma to_float_16: "to_float (5674535530486825 / 9007199254740992) = Fin (5674535530486825 / 9007199254740992)"
  using to_float_eqI[of "-1" "5674535530486825 / 9007199254740992" "5674535530486825"]
  by (simp add: round_half_even_def Let_def power_int_minus)

lemma to_float_17: "to_float (7256776743321599 / 10995116277760000) = Fin (2972375754064527 / 4503599627370496)"
  using to_float_eqI[of "-1" "7256776743321599 / 10995116277760000" "5944751508129054"]
  by (simp add: round_half_even_def Let_def power_int_minus)

lemma to_float_18: "to_float (33 / 50) = Fin (5944751508129055 / 9007199254740992)"
  using to_float_eqI[of "-1" "33 / 50" "5944751508129055"]
  by (simp add: round_half_even_def Let_def power_int_minus)

lemma to_float_19: "to_float (6755399441055743 / 9007199254740992) = Fin (6755399441055743 / 9007199254740992)"
  using to_float_eqI[of "-1" "6755399441055743 / 9007199254740992" "6755399441055743"]
  by (simp add: round_half_even_def Let_def power_int_minus)

lemma to_float_20: "to_float (3 / 4) = Fin (3 / 4)"
  using to_float_eqI[of "-1" "3 / 4" "6755399441055744"]
  by (simp add: round_half_even_def Let_def power_int_minus)

lemma to_float_21: "to_float (13961158844848537 / 18014398509481984) = Fin (1745144855606067 / 2251799813685248)"
  using to_float_eqI[of "-1" "13961158844848537 / 18014398509481984" "6980579422424268"]
  by (simp add: round_half_even_def Let_def power_int_minus)

lemma to_float_22: "to_float (14411518807585587 / 18014398509481984) = Fin (3602879701896397 / 4503599627370496)"
  using to_float_eqI[of "-1" "14411518807585587 / 18014398509481984" "7205759403792794"]
  by (simp add: round_half_even_def Let_def power_int_minus)

lemma to_float_23: "to_float (19 / 20) = Fin (4278419646001971 / 4503599627370496)"
  using to_float_eqI[of "-1" "19 / 20" "8556839292003942"]
  by (simp add: round_half_even_def Let_def power_int_minus)

lemma to_float_24: "to_float (97 / 100) = Fin (4368491638549381 / 4503599627370496)"
  using to_float_eqI[of "-1" "97 / 100" "8736983277098762"]
  by (simp add: round_half_even_def Let_def power_int_minus)

lemma to_float_25: "to_float (17564038546744933 / 18014398509481984) = Fin (4391009636686233 / 4503599627370496)"
  using to_float_eqI[of "-1" "17564038546744933 / 18014398509481984" "8782019273372466"]
  by (simp add: round_half_even_def Let_def power_int_minus)

lemma to_float_26: "to_float (1) = Fin (1)"
  using to_float_eqI[of "0" "1" "4503599627370496"]
  by (simp add: round_half_even_def Let_def power_int_minus)

lemma to_float_27: "to_float (18014398509481985 / 18014398509481984) = Fin (1)"
  using to_float_eqI[of "0" "18014398509481985 / 18014398509481984" "4503599627370496"]
  by (simp add: round_half_even_def Let_def power_int_minus)

lemma to_float_28: "to_float (6 / 5) = Fin (5404319552844595 / 4503599627370496)"
  using to_float_eqI[of "0" "6 / 5" "5404319552844595"]
  by (simp add: round_half_even_def Let_def power_int_minus)

lemma to_float_29: "to_float (5000) = Fin (5000)"
  using to_float_eqI[of "12" "5000" "5497558138880000"]
  by (simp add: round_half_even_def Let_def power_int_minus)

lemma to_float_30: "to_float (5500) = Fin (5500)"
  using to_float_eqI[of "12" "5500" "6047313952768000"]
  by (simp add: round_half_even_def Let_def power_int_minus)

lemma to_float_31: "to_float (951160241300648671875 / 144115188075855872) = Fin (7256776743321599 / 1099511627776)"
  using to_float_eqI[of "12" "951160241300648671875 / 144115188075855872" "7256776743321599"]
  by (simp add: round_half_even_def Let_def power_int_minus)

lemma to_float_32: "to_float (7430939385161318125 / 1125899906842624) = Fin (6600)"
  using to_float_eqI[of "12" "7430939385161318125 / 1125899906842624" "7256776743321600"]
  by (simp add: round_half_even_def Let_def power_int_minus)

lemma to_float_33: "to_float (6600) = Fin (6600)"
  using to_float_eqI[of "12" "6600" "7256776743321600"]
  by (simp add: round_half_even_def Let_def power_int_minus)

lemma to_float_34: "to_float (9500) = Fin (9500)"
  using to_float_eqI[of "13" "9500" "5222680231936000"]
  by (simp add: round_half_even_def Let_def power_int_minus)

lemma to_float_35: "to_float (10000) = Fin (10000)"
  using to_float_eqI[of "13" "10000" "5497558138880000"]
  by (simp add: round_half_even_def Let_def power_int_minus)

lemma to_float_36: "to_float (171875) = Fin (171875)"
  using to_float_eqI[of "17" "171875" "5905580032000000"]
  by (simp add: round_half_even_def Let_def power_int_minus)

lemmas float_facts =
  to_float_1 to_float_2 to_float_3 to_float_4 to_float_5 to_float_6 to_float_7 to_float_8
  to_float_9 to_float_10 to_float_11 to_float_12 to_float_13 to_float_14 to_float_15
  to_float_16 to_float_17 to_float_18 to_float_19 to_float_20 to_float_21 to_float_22
  to_float_23 to_float_24 to_float_25 to_float_26 to_float_27 to_float_28 to_float_29
  to_float_30 to_float_31 to_float_32 to_float_33 to_float_34 to_float_35 to_float_36

section \<open>Properties of the metrics engine\<close>

lemma bnd_simps [simp]:
  "bnd (Inl e) f = Inl e"
  "bnd (Inr v) f = f v"
  by (simp_all add: bnd_def)

lemma classify_heart_rate_num:
  "num_of v = Some x \<Longrightarrow> classify_heart_rate v = Inr (spec_heart_category x)"
  by (simp add: classify_heart_rate_def py_lt_def py_le_def py_ge_def spec_heart_category_def)

lemma classify_env_num:
  "num_of v = Some x \<Longrightarrow> classify_env v = Inr (spec_env_quality x)"
  by (simp add: classify_env_def py_ge_def spec_env_quality_def)

lemma classify_temp_num:
  "num_of v = Some x \<Longrightarrow> classify_temp v = Inr (spec_temp_impact x)"
  by (simp add: classify_temp_def py_lt_def py_le_def py_ge_def spec_temp_impact_def)

lemma heart_factor_lookup:
  "\<exists>f. table_lookup heart_rate_factors (spec_heart_category x) = Inr f
       \<and> as_float f = Inr (spec_heart_factor (spec_heart_category x))"
  by (simp add: table_lookup_def heart_rate_factors_def spec_heart_category_def
      spec_heart_factor_def as_float_def float_of_int_def to_float_one)

lemma env_factor_lookup:
  "\<exists>f. table_lookup env_factors (spec_env_quality x) = Inr f
       \<and> as_float f = Inr (spec_env_factor (spec_env_quality x))"
  by (simp add: table_lookup_def env_factors_def spec_env_quality_def
      spec_env_factor_def as_float_def float_of_int_def to_float_one)

lemma pos_int_cases:
  assumes "pos_int v"
  obtains i where "v = Some (PInt i)" "0 < i"
  using assms by (auto simp: pos_int_def split: option.splits pyval.splits)

lemma real_val_cases:
  assumes "real_val v \<noteq> None"
  obtains i where "v = Some (PInt i)" | x where "v = Some (PFloat x)"
  using assms by (auto simp: real_val_def split: option.splits pyval.splits)

lemma real_val_num_of:
  "real_val (Some v) = Some x \<Longrightarrow> num_of v = Some x"
  by (auto simp: real_val_def num_of_def split: pyval.splits)

text \<open>The product line 217 computes on a typed record, its rounding and its quotient by
  10000: inside the float range they are the values of the formulas, outside it the
  conversion of the step count or the division raises \<^verbatim>\<open>OverflowError\<close>.\<close>

lemma typed_product:
  assumes "map_of d ''current_steps'' = Some (PInt s)"
    and "map_of d ''activity_intensity_factor'' = Some av"
    and "real_val (Some av) \<noteq> None"
    and "in_float_range d"
  shows "py_mul (PInt s) av = Inr (predicted_product d)"
    and "py_round2 (predicted_product d) = Inr (round_result (predicted_product d))"
    and "py_truediv (predicted_product d) 10000 = Inr (quotient_10000 (predicted_product d))"
proof -
  from assms(3) consider a where "av = PInt a" | x where "av = PFloat x"
    by (auto simp: real_val_def split: pyval.splits)
  then have "py_mul (PInt s) av = Inr (predicted_product d)
    \<and> py_round2 (predicted_product d) = Inr (round_result (predicted_product d))
    \<and> py_truediv (predicted_product d) 10000 = Inr (quotient_10000 (predicted_product d))"
  proof cases
    case 1
    with assms(1,2,4) obtain q where "to_float (of_int (s * a) / 10000) = Fin q"
      by (auto simp: in_float_range_def is_finite_def split: xfloat.splits)
    with 1 assms(1,2) show ?thesis
      by (simp add: py_mul_def int_of_num_def predicted_product_def py_round2_def
          round_result_def py_truediv_def quotient_10000_def)
  next
    case 2
    with assms(1,2,4) obtain fs where "to_float (of_int s) = Fin fs"
      by (auto simp: in_float_range_def is_finite_def split: xfloat.splits)
    with 2 assms(1,2) show ?thesis
      by (simp add: py_mul_def int_of_num_def num_of_def as_float_def float_of_int_def
          predicted_product_def xmul_def py_round2_def round_result_def py_truediv_def
          quotient_10000_def)
  qed
  then show "py_mul (PInt s) av = Inr (predicted_product d)"
    and "py_round2 (predicted_product d) = Inr (round_result (predicted_product d))"
    and "py_truediv (predicted_product d) 10000 = Inr (quotient_10000 (predicted_product d))"
    by simp_all
qed

lemma typed_product_overflow:
  assumes "map_of d ''current_steps'' = Some (PInt s)"
    and "map_of d ''activity_intensity_factor'' = Some av"
    and "real_val (Some av) \<noteq> None"
    and "\<not> in_float_range d"
  shows "py_mul (PInt s) av = Inl OverflowError
    \<or> (\<exists>p r. py_mul (PInt s) av = Inr p \<and> py_round2 p = Inr r
          \<and> py_truediv p 10000 = Inl OverflowError)"
proof -
  from assms(3) consider a where "av = PInt a" | x where "av = PFloat x"
    by (auto simp: real_val_def split: pyval.splits)
  then show ?thesis
  proof cases
    case 1
    with assms(1,2,4) have "\<not> is_finite (to_float (of_int (s * a) / 10000))"
      by (simp add: in_float_range_def)
    with 1 show ?thesis
      by (auto simp: py_mul_def int_of_num_def py_round2_def py_truediv_def is_finite_def
          split: xfloat.splits)
  next
    case 2
    with assms(1,2,4) have "\<not> is_finite (to_float (of_int s))"
      by (simp add: in_float_range_def)
    with 2 show ?thesis
      by (auto simp: py_mul_def int_of_num_def num_of_def as_float_def float_of_int_def
          is_finite_def split: xfloat.splits)
  qed
qed

lemma calculate_metrics_typed:
  assumes "typed_record d"
  shows "in_float_range d \<Longrightarrow>
           calculate_metrics (PDict d) = Inr \<lparr> input_data = PDict d, calcs = expected_calcs d \<rparr>"
    and "\<not> in_float_range d \<Longrightarrow> calculate_metrics (PDict d) = Inl OverflowError"
proof -
  from assms obtain s where s: "map_of d ''current_steps'' = Some (PInt s)" "0 < s"
    unfolding typed_record_def by (blast elim: pos_int_cases)
  from assms obtain h where h: "map_of d ''heart_rate'' = Some (PInt h)" "0 < h"
    unfolding typed_record_def by (blast elim: pos_int_cases)
  from assms obtain tv t where t: "map_of d ''ambient_temperature'' = Some tv" "real_val (Some tv) = Some t"
    unfolding typed_record_def by (cases "map_of d ''ambient_temperature''") (auto simp: real_val_def)
  from assms obtain ev e where e: "map_of d ''environmental_index'' = Some ev" "real_val (Some ev) = Some e"
    unfolding typed_record_def by (cases "map_of d ''environmental_index''") (auto simp: real_val_def split: option.splits)
  from assms obtain av a where a: "map_of d ''activity_intensity_factor'' = Some av" "real_val (Some av) = Some a"
    unfolding typed_record_def by (cases "map_of d ''activity_intensity_factor''") (auto simp: real_val_def split: option.splits)
  from a(2) have an: "real_val (Some av) \<noteq> None" by simp
  have fn: "field_num d ''heart_rate'' = of_int h"
    "field_num d ''ambient_temperature'' = t" "field_num d ''environmental_index'' = e"
    using h t e by (simp_all add: field_num_def real_val_def)
  have nh: "num_of (PInt h) = Some (of_int h)" by (simp add: num_of_def)
  obtain hf where hf: "table_lookup heart_rate_factors (spec_heart_category (of_int h)) = Inr hf"
    "as_float hf = Inr (spec_heart_factor (spec_heart_category (of_int h)))"
    using heart_factor_lookup by blast
  obtain ef where ef: "table_lookup env_factors (spec_env_quality e) = Inr ef"
    "as_float ef = Inr (spec_env_factor (spec_env_quality e))"
    using env_factor_lookup by blast
  note steps = py_copy_def py_getitem_def s h t e a classify_heart_rate_num[OF nh]
    classify_env_num[OF real_val_num_of[OF e(2)]] classify_temp_num[OF real_val_num_of[OF t(2)]]
    hf ef py_mul_float_def
  show "calculate_metrics (PDict d) = Inr \<lparr> input_data = PDict d, calcs = expected_calcs d \<rparr>"
    if "in_float_range d"
    unfolding calculate_metrics_def
    by (simp add: steps typed_product[OF s(1) a(1) an that] expected_calcs_def Let_def fn
        composite_formula_def normalized_formula_def heart_formula_def env_formula_def xmul_def)
  show "calculate_metrics (PDict d) = Inl OverflowError" if "\<not> in_float_range d"
    using typed_product_overflow[OF s(1) a(1) an that]
    unfolding calculate_metrics_def
    by (auto simp: steps)
qed

lemmas record_eval =
  typed_record_def is_str_def pos_int_def real_val_def field_num_def
  spec_heart_category_def spec_env_quality_def spec_temp_impact_def

lemmas formula_eval =
  composite_formula_def normalized_formula_def heart_formula_def env_formula_def
  predicted_product_def quotient_10000_def round_result_def in_float_range_def
  spec_heart_factor_def spec_env_factor_def float_lit_def
  xmul_def xadd_def xdiv_def xge_def xround2_def is_finite_def round_half_even_def Let_def



text \<open>
  Claim C2. For every typed user record inside the float range, \<open>calculate_metrics\<close> reports
  normalized_activity = (current_steps * activity_intensity_factor / 10000) * 0.5,
  heart_component = heart factor * 0.3 with factors Optimal 1.0, Below Optimal 0.8 and
  Above Optimal 0.7, env_component = environment factor * 0.2 with factors Good 1.0,
  Moderate 0.8 and Poor 0.6, and the composite score as the sum of the three unrounded
  components, every operation in float arithmetic and each of the four values rounded to
  two decimal places on its own. For a typed record outside the float range the call raises
  \<^verbatim>\<open>OverflowError\<close>. The worked example U1 yields predicted activity 10000.0, components
  0.5, 0.3 and 0.2, score 1.0, recommendation "Continue current fitness plan" and status
  "Optimal".
\<close>

theorem composite_components_rounded:
  assumes "typed_record d"
  shows "(if in_float_range d
    then (\<exists>m. calculate_metrics (PDict d) = Inr m
      \<and> normalized_activity (calcs m)
          = xround2 (xmul (quotient_10000 (predicted_product d)) (Fin 0.5))
      \<and> heart_component (calcs m)
          = xround2 (xmul (Fin (spec_heart_factor (heart_rate_category (calcs m))))
                          (Fin (float_lit 0.3)))
      \<and> env_component (calcs m)
          = xround2 (xmul (Fin (spec_env_factor (environmental_quality (calcs m))))
                          (Fin (float_lit 0.2)))
      \<and> composite_fitness_score (calcs m)
          = xround2
              (xadd
                (xadd (xmul (quotient_10000 (predicted_product d)) (Fin 0.5))
                      (xmul (Fin (spec_heart_factor (heart_rate_category (calcs m))))
                            (Fin (float_lit 0.3))))
                (xmul (Fin (spec_env_factor (environmental_quality (calcs m))))
                      (Fin (float_lit 0.2)))))
    else calculate_metrics (PDict d) = Inl OverflowError)
    \<and> calculate_metrics (PDict example_U1)
        = Inr \<lparr> input_data = PDict example_U1,
                 calcs = \<lparr> predicted_activity = RFloat (Fin 10000.0),
                           heart_rate_category = ''Optimal'',
                           environmental_quality = ''Good'',
                           temperature_impact = ''Ideal Temperature'',
                           normalized_activity = Fin 0.5,
                           heart_component = Fin (float_lit 0.3),
                           env_component = Fin (float_lit 0.2),
                           composite_fitness_score = Fin 1.0,
                           recommendation = ''Continue current fitness plan'',
                           status = ''Optimal'' \<rparr> \<rparr>"
proof -
  have general: "normalized_activity (expected_calcs d)
       = xround2 (xmul (quotient_10000 (predicted_product d)) (Fin 0.5))"
    "heart_component (expected_calcs d)
       = xround2 (xmul (Fin (spec_heart_factor (heart_rate_category (expected_calcs d))))
                       (Fin (float_lit 0.3)))"
    "env_component (expected_calcs d)
       = xround2 (xmul (Fin (spec_env_factor (environmental_quality (expected_calcs d))))
                       (Fin (float_lit 0.2)))"
    "composite_fitness_score (expected_calcs d)
       = xround2
           (xadd
             (xadd (xmul (quotient_10000 (predicted_product d)) (Fin 0.5))
                   (xmul (Fin (spec_heart_factor (heart_rate_category (expected_calcs d))))
                         (Fin (float_lit 0.3))))
             (xmul (Fin (spec_env_factor (environmental_quality (expected_calcs d))))
                   (Fin (float_lit 0.2))))"
    by (simp_all add: expected_calcs_def Let_def composite_formula_def normalized_formula_def
        heart_formula_def env_formula_def)
  have first: "if in_float_range d
    then (\<exists>m. calculate_metrics (PDict d) = Inr m
      \<and> normalized_activity (calcs m)
          = xround2 (xmul (quotient_10000 (predicted_product d)) (Fin 0.5))
      \<and> heart_component (calcs m)
          = xround2 (xmul (Fin (spec_heart_factor (heart_rate_category (calcs m))))
                          (Fin (float_lit 0.3)))
      \<and> env_component (calcs m)
          = xround2 (xmul (Fin (spec_env_factor (environmental_quality (calcs m))))
                          (Fin (float_lit 0.2)))
      \<and> composite_fitness_score (calcs m)
          = xround2
              (xadd
                (xadd (xmul (quotient_10000 (predicted_product d)) (Fin 0.5))
                      (xmul (Fin (spec_heart_factor (heart_rate_category (calcs m))))
                            (Fin (float_lit 0.3))))
                (xmul (Fin (spec_env_factor (environmental_quality (calcs m))))
                      (Fin (float_lit 0.2)))))
    else calculate_metrics (PDict d) = Inl OverflowError"
  proof (cases "in_float_range d")
    case True
    from calculate_metrics_typed(1)[OF assms True] general show ?thesis
      using True by simp
  next
    case False
    from calculate_metrics_typed(2)[OF assms False] show ?thesis
      using False by simp
  qed
  have t1: "typed_record example_U1"
    by (simp add: example_U1_def record_eval)
  have i1: "in_float_range example_U1"
    by (simp add: example_U1_def in_float_range_def is_finite_def float_facts)
  have "expected_calcs example_U1
        = \<lparr> predicted_activity = RFloat (Fin 10000.0),
            heart_rate_category = ''Optimal'',
            environmental_quality = ''Good'',
            temperature_impact = ''Ideal Temperature'',
            normalized_activity = Fin 0.5,
            heart_component = Fin (float_lit 0.3),
            env_component = Fin (float_lit 0.2),
            composite_fitness_score = Fin 1.0,
            recommendation = ''Continue current fitness plan'',
            status = ''Optimal'' \<rparr>"
    by (simp add: expected_calcs_def example_U1_def record_eval formula_eval float_facts)
  with calculate_metrics_typed(1)[OF t1 i1] first show ?thesis
    by simp
qed

theorem composite_components_rounded_witness:
  "typed_record (user_record ''U47'' 9500 85 (PInt 23) (PInt 80) (PFloat 1))
   \<and> (\<exists>m. calculate_metrics
             (PDict (user_record ''U47'' 9500 85 (PInt 23) (PInt 80) (PFloat 1))) = Inr m
        \<and> normalized_activity (calcs m) = Fin (float_lit 0.47)
        \<and> heart_component (calcs m) = Fin (float_lit 0.3)
        \<and> env_component (calcs m) = Fin (float_lit 0.2)
        \<and> composite_fitness_score (calcs m) = Fin (float_lit 0.97))"
proof -
  let ?r = "user_record ''U47'' 9500 85 (PInt 23) (PInt 80) (PFloat 1)"
  have t: "typed_record ?r"
    by (simp add: user_record_def record_eval)
  have i: "in_float_range ?r"
    by (simp add: user_record_def in_float_range_def is_finite_def float_facts)
  note m = calculate_metrics_typed(1)[OF t i]
  note general = composite_components_rounded[OF t, THEN conjunct1, unfolded if_P[OF i]]
  then obtain m0 where
    m0: "calculate_metrics (PDict ?r) = Inr m0"
    and n: "normalized_activity (calcs m0)
        = xround2 (xmul (quotient_10000 (predicted_product ?r)) (Fin 0.5))"
    and h: "heart_component (calcs m0)
        = xround2 (xmul (Fin (spec_heart_factor (heart_rate_category (calcs m0))))
                        (Fin (float_lit 0.3)))"
    and e: "env_component (calcs m0)
        = xround2 (xmul (Fin (spec_env_factor (environmental_quality (calcs m0))))
                        (Fin (float_lit 0.2)))"
    and c: "composite_fitness_score (calcs m0)
        = xround2
            (xadd
              (xadd (xmul (quotient_10000 (predicted_product ?r)) (Fin 0.5))
                    (xmul (Fin (spec_heart_factor (heart_rate_category (calcs m0))))
                          (Fin (float_lit 0.3))))
              (xmul (Fin (spec_env_factor (environmental_quality (calcs m0))))
                    (Fin (float_lit 0.2))))"
    by blast
  from m m0 have mp: "m0 = \<lparr>input_data = PDict ?r, calcs = expected_calcs ?r\<rparr>"
    by simp
  have cat: "heart_rate_category (calcs m0) = ''Optimal''"
    "environmental_quality (calcs m0) = ''Good''"
    by (simp_all add: mp expected_calcs_def Let_def user_record_def record_eval)
  have "normalized_activity (calcs m0) = Fin (float_lit 0.47)"
    unfolding n by (simp add: user_record_def formula_eval float_facts)
  moreover have "heart_component (calcs m0) = Fin (float_lit 0.3)"
    unfolding h cat by (simp add: formula_eval float_facts)
  moreover have "env_component (calcs m0) = Fin (float_lit 0.2)"
    unfolding e cat by (simp add: formula_eval float_facts)
  moreover have "composite_fitness_score (calcs m0) = Fin (float_lit 0.97)"
    unfolding c cat by (simp add: user_record_def formula_eval float_facts)
  ultimately show ?thesis
    using t m0 by blast
qed

text \<open>
  Claim C3. For every typed user record inside the float range the three classifications
  follow the stated rules, with the boundaries on the stated side: heart rate 60 and 100
  are Optimal, 101 is Above Optimal and anything below 60 is Below Optimal; environmental
  index 75 is Good, 74.999 is Moderate and anything below 50 is Poor; every temperature
  from 15 to 25 inclusive is Ideal Temperature, 25.01 is Too Hot and anything below 15 is
  Too Cold. For a typed record outside the float range the call raises
  \<^verbatim>\<open>OverflowError\<close>.
\<close>

theorem classification_boundaries:
  assumes "typed_record d"
  shows "if in_float_range d
    then (\<exists>m. calculate_metrics (PDict d) = Inr m
    \<and> heart_rate_category (calcs m) = spec_heart_category (field_num d ''heart_rate'')
    \<and> environmental_quality (calcs m) = spec_env_quality (field_num d ''environmental_index'')
    \<and> temperature_impact (calcs m) = spec_temp_impact (field_num d ''ambient_temperature'')
    \<and> (field_num d ''heart_rate'' = 60 \<longrightarrow> heart_rate_category (calcs m) = ''Optimal'')
    \<and> (field_num d ''heart_rate'' = 100 \<longrightarrow> heart_rate_category (calcs m) = ''Optimal'')
    \<and> (field_num d ''heart_rate'' = 101 \<longrightarrow> heart_rate_category (calcs m) = ''Above Optimal'')
    \<and> (field_num d ''heart_rate'' < 60 \<longrightarrow> heart_rate_category (calcs m) = ''Below Optimal'')
    \<and> (field_num d ''environmental_index'' = 75 \<longrightarrow> environmental_quality (calcs m) = ''Good'')
    \<and> (field_num d ''environmental_index'' = 74.999
          \<longrightarrow> environmental_quality (calcs m) = ''Moderate'')
    \<and> (field_num d ''environmental_index'' < 50 \<longrightarrow> environmental_quality (calcs m) = ''Poor'')
    \<and> (15 \<le> field_num d ''ambient_temperature'' \<and> field_num d ''ambient_temperature'' \<le> 25
          \<longrightarrow> temperature_impact (calcs m) = ''Ideal Temperature'')
    \<and> (field_num d ''ambient_temperature'' = 25.01
          \<longrightarrow> temperature_impact (calcs m) = ''Too Hot'')
    \<and> (field_num d ''ambient_temperature'' < 15
          \<longrightarrow> temperature_impact (calcs m) = ''Too Cold''))
    else calculate_metrics (PDict d) = Inl OverflowError"
proof (cases "in_float_range d")
  case True
  note m = calculate_metrics_typed(1)[OF assms True]
  have cats: "heart_rate_category (expected_calcs d) = spec_heart_category (field_num d ''heart_rate'')"
    "environmental_quality (expected_calcs d) = spec_env_quality (field_num d ''environmental_index'')"
    "temperature_impact (expected_calcs d) = spec_temp_impact (field_num d ''ambient_temperature'')"
    by (simp_all add: expected_calcs_def Let_def)
  have "\<exists>m. calculate_metrics (PDict d) = Inr m
    \<and> heart_rate_category (calcs m) = spec_heart_category (field_num d ''heart_rate'')
    \<and> environmental_quality (calcs m) = spec_env_quality (field_num d ''environmental_index'')
    \<and> temperature_impact (calcs m) = spec_temp_impact (field_num d ''ambient_temperature'')
    \<and> (field_num d ''heart_rate'' = 60 \<longrightarrow> heart_rate_category (calcs m) = ''Optimal'')
    \<and> (field_num d ''heart_rate'' = 100 \<longrightarrow> heart_rate_category (calcs m) = ''Optimal'')
    \<and> (field_num d ''heart_rate'' = 101 \<longrightarrow> heart_rate_category (calcs m) = ''Above Optimal'')
    \<and> (field_num d ''heart_rate'' < 60 \<longrightarrow> heart_rate_category (calcs m) = ''Below Optimal'')
    \<and> (field_num d ''environmental_index'' = 75 \<longrightarrow> environmental_quality (calcs m) = ''Good'')
    \<and> (field_num d ''environmental_index'' = 74.999
          \<longrightarrow> environmental_quality (calcs m) = ''Moderate'')
    \<and> (field_num d ''environmental_index'' < 50 \<longrightarrow> environmental_quality (calcs m) = ''Poor'')
    \<and> (15 \<le> field_num d ''ambient_temperature'' \<and> field_num d ''ambient_temperature'' \<le> 25
          \<longrightarrow> temperature_impact (calcs m) = ''Ideal Temperature'')
    \<and> (field_num d ''ambient_temperature'' = 25.01
          \<longrightarrow> temperature_impact (calcs m) = ''Too Hot'')
    \<and> (field_num d ''ambient_temperature'' < 15
          \<longrightarrow> temperature_impact (calcs m) = ''Too Cold'')"
    unfolding m
    by (auto simp: cats spec_heart_category_def spec_env_quality_def spec_temp_impact_def)
  with True show ?thesis by (simp only: if_True)
next
  case False
  from calculate_metrics_typed(2)[OF assms False] show ?thesis
    using False by simp
qed

theorem classification_boundaries_witness:
  "typed_record (user_record ''A'' 5000 60 (PInt 25) (PInt 75) (PFloat 1))
   \<and> (\<exists>m. calculate_metrics (PDict (user_record ''A'' 5000 60 (PInt 25) (PInt 75) (PFloat 1))) = Inr m
        \<and> heart_rate_category (calcs m) = ''Optimal''
        \<and> environmental_quality (calcs m) = ''Good''
        \<and> temperature_impact (calcs m) = ''Ideal Temperature'')
   \<and> typed_record (user_record ''B'' 5000 100 (PFloat 25.01) (PFloat 74.999) (PFloat 1))
   \<and> (\<exists>m. calculate_metrics
             (PDict (user_record ''B'' 5000 100 (PFloat 25.01) (PFloat 74.999) (PFloat 1))) = Inr m
        \<and> heart_rate_category (calcs m) = ''Optimal''
        \<and> environmental_quality (calcs m) = ''Moderate''
        \<and> temperature_impact (calcs m) = ''Too Hot'')
   \<and> typed_record (user_record ''C'' 5000 101 (PFloat 14.5) (PInt 49) (PFloat 1))
   \<and> (\<exists>m. calculate_metrics
             (PDict (user_record ''C'' 5000 101 (PFloat 14.5) (PInt 49) (PFloat 1))) = Inr m
        \<and> heart_rate_category (calcs m) = ''Above Optimal''
        \<and> environmental_quality (calcs m) = ''Poor''
        \<and> temperature_impact (calcs m) = ''Too Cold'')
   \<and> typed_record (user_record ''D'' 5000 59 (PInt 15) (PInt 50) (PFloat 1))
   \<and> (\<exists>m. calculate_metrics
             (PDict (user_record ''D'' 5000 59 (PInt 15) (PInt 50) (PFloat 1))) = Inr m
        \<and> heart_rate_category (calcs m) = ''Below Optimal''
        \<and> environmental_quality (calcs m) = ''Moderate''
        \<and> temperature_impact (calcs m) = ''Ideal Temperature'')"
proof -
  let ?a = "user_record ''A'' 5000 60 (PInt 25) (PInt 75) (PFloat 1)"
  let ?b = "user_record ''B'' 5000 100 (PFloat 25.01) (PFloat 74.999) (PFloat 1)"
  let ?c = "user_record ''C'' 5000 101 (PFloat 14.5) (PInt 49) (PFloat 1)"
  let ?d = "user_record ''D'' 5000 59 (PInt 15) (PInt 50) (PFloat 1)"
  have t: "typed_record ?a" "typed_record ?b" "typed_record ?c" "typed_record ?d"
    by (simp_all add: user_record_def record_eval)
  have i: "in_float_range ?a" "in_float_range ?b" "in_float_range ?c" "in_float_range ?d"
    by (simp_all add: user_record_def in_float_range_def is_finite_def float_facts)
  have fa: "field_num ?a ''heart_rate'' = 60" "field_num ?a ''environmental_index'' = 75"
    "field_num ?a ''ambient_temperature'' = 25"
    by (simp_all add: user_record_def field_num_def real_val_def)
  have fb: "field_num ?b ''heart_rate'' = 100" "field_num ?b ''environmental_index'' = 74.999"
    "field_num ?b ''ambient_temperature'' = 25.01"
    by (simp_all add: user_record_def field_num_def real_val_def)
  have fc: "field_num ?c ''heart_rate'' = 101" "field_num ?c ''environmental_index'' < 50"
    "field_num ?c ''ambient_temperature'' < 15"
    by (simp_all add: user_record_def field_num_def real_val_def)
  have fd: "field_num ?d ''heart_rate'' < 60" "field_num ?d ''environmental_index'' = 50"
    "15 \<le> field_num ?d ''ambient_temperature'' \<and> field_num ?d ''ambient_temperature'' \<le> 25"
    by (simp_all add: user_record_def field_num_def real_val_def)
  have a: "\<exists>m. calculate_metrics (PDict ?a) = Inr m
        \<and> heart_rate_category (calcs m) = ''Optimal''
        \<and> environmental_quality (calcs m) = ''Good''
        \<and> temperature_impact (calcs m) = ''Ideal Temperature''"
    using classification_boundaries[OF t(1)] i(1) fa by auto
  have b: "\<exists>m. calculate_metrics (PDict ?b) = Inr m
        \<and> heart_rate_category (calcs m) = ''Optimal''
        \<and> environmental_quality (calcs m) = ''Moderate''
        \<and> temperature_impact (calcs m) = ''Too Hot''"
    using classification_boundaries[OF t(2)] i(2) fb by auto
  have c: "\<exists>m. calculate_metrics (PDict ?c) = Inr m
        \<and> heart_rate_category (calcs m) = ''Above Optimal''
        \<and> environmental_quality (calcs m) = ''Poor''
        \<and> temperature_impact (calcs m) = ''Too Cold''"
    using classification_boundaries[OF t(3)] i(3) fc by auto
  have d: "\<exists>m. calculate_metrics (PDict ?d) = Inr m
        \<and> heart_rate_category (calcs m) = ''Below Optimal''
        \<and> environmental_quality (calcs m) = ''Moderate''
        \<and> temperature_impact (calcs m) = ''Ideal Temperature''"
    using classification_boundaries[OF t(4)] i(4) fd
    by (auto simp: spec_env_quality_def)
  from t a b c d show ?thesis by blast
qed

section \<open>Properties of the validator\<close>

lemma missing_loop_dict:
  "missing_loop fs (PDict d) = Inr (filter (\<lambda>field. map_of d field = None) fs)"
  by (induction fs) (simp_all add: py_contains_def)

lemma caught_int:
  "caught (py_int lib v) (\<lambda>i. i \<le> 0) = Inr (\<not> int_accepted lib (Some v))"
proof (cases v)
  case (PFloat x)
  have "((if 0 \<le> x then \<lfloor>x\<rfloor> else \<lceil>x\<rceil>) \<le> 0) = (\<not> 1 \<le> x)"
    by (auto simp: floor_le_iff ceiling_le_iff)
  then show ?thesis
    using PFloat by (simp add: caught_def py_int_def int_accepted_def)
next
  case (PStr s)
  then show ?thesis
    by (cases "int_of_str lib s") (auto simp: caught_def py_int_def int_accepted_def)
qed (auto simp: caught_def py_int_def int_accepted_def)

lemma caught_float:
  "caught (py_float lib v) bad = Inr (\<not> float_accepted lib (\<lambda>x. \<not> bad x) (Some v))"
proof (cases v)
  case (PStr s)
  then show ?thesis
    by (cases "float_of_str lib s") (auto simp: caught_def py_float_def float_accepted_def)
qed (auto simp: caught_def py_float_def float_accepted_def)

lemma absent_Nil_iff:
  "absent d = [] \<longleftrightarrow> (\<forall>field \<in> set required_fields. map_of d field \<noteq> None)"
  by (auto simp: absent_def filter_empty_conv)

lemma invalid_fields_dict:
  assumes "absent d = []"
  shows "invalid_fields lib (PDict d) = Inr (bad_fields lib d)"
proof -
  from assms obtain u s h t e a where f:
    "map_of d ''user_id'' = Some u" "map_of d ''current_steps'' = Some s"
    "map_of d ''heart_rate'' = Some h" "map_of d ''ambient_temperature'' = Some t"
    "map_of d ''environmental_index'' = Some e" "map_of d ''activity_intensity_factor'' = Some a"
    unfolding absent_Nil_iff required_fields_def by auto
  have env: "(\<lambda>x::real. \<not> (x < 0 \<or> 100 < x)) = (\<lambda>x. 0 \<le> x \<and> x \<le> 100)"
    and act: "(\<lambda>x::real. \<not> x \<le> 0) = (\<lambda>x. 0 < x)"
    by (auto simp: fun_eq_iff)
  have uid: "(case u of PStr s \<Rightarrow> False | _ \<Rightarrow> True) = (\<not> is_str (Some u))"
    by (cases u) (simp_all add: is_str_def)
  show ?thesis
    unfolding invalid_fields_def bad_fields_def
    by (simp add: py_getitem_def f caught_int caught_float uid not_less not_le)
qed

lemma check_record_dict:
  "check_record lib n (PDict d)
     = Inr (case row_errors lib n d of [] \<Rightarrow> None | e # es \<Rightarrow> Some e)"
proof (cases "absent d = []")
  case True
  then show ?thesis
    by (simp add: check_record_def missing_loop_dict invalid_fields_dict row_errors_def
        absent_def[symmetric])
next
  case False
  then show ?thesis
    by (simp add: check_record_def missing_loop_dict row_errors_def absent_def[symmetric])
qed

lemma row_errors_cases:
  "row_errors lib n d = [] \<or> (\<exists>e. row_errors lib n d = [e])"
  by (simp add: row_errors_def)

lemma batch_errors_Nil [simp]: "batch_errors lib i [] = []"
  by (simp add: batch_errors_def)

lemma batch_errors_Cons:
  "batch_errors lib i (d # ds) = row_errors lib (Suc i) d @ batch_errors lib (Suc i) ds"
proof -
  have lt: "Suc i < Suc i + length (d # ds)" by simp
  have eq: "Suc i + length (d # ds) = Suc (Suc i) + length ds" by simp
  have "[Suc i ..< Suc i + length (d # ds)] = Suc i # [Suc (Suc i) ..< Suc (Suc i) + length ds]"
    using upt_conv_Cons[OF lt] unfolding eq .
  then show ?thesis
    unfolding batch_errors_def by (simp del: upt_Suc length_Cons add_Suc add_Suc_right)
qed

lemma validate_records_dicts:
  "validate_records lib i (map PDict ds) errs = Inr (errs @ batch_errors lib i ds)"
proof (induction ds arbitrary: i errs)
  case Nil
  then show ?case by simp
next
  case (Cons d ds)
  from row_errors_cases[of lib "Suc i" d] show ?case
    by (auto simp: check_record_dict Cons.IH batch_errors_Cons)
qed

lemma all_contain_dicts:
  "all_contain field (map PDict ds) = Inr (list_all (\<lambda>d. map_of d field \<noteq> None) ds)"
  by (induction ds) (simp_all add: py_contains_def)

lemma fields_check_loop_dicts:
  "fields_check_loop fs (map PDict ds)
     = Inr (map (\<lambda>field. (field, if list_all (\<lambda>d. map_of d field \<noteq> None) ds then ''present''
                                 else ''missing'')) fs)"
  by (induction fs) (simp_all add: all_contain_dicts)

lemma validate_data_dicts:
  assumes "ds \<noteq> []"
  shows "validate_data lib (PList (map PDict ds))
     = Inr (batch_errors lib 0 ds = [],
            generate_validation_report
              \<lparr> num_users = length ds, fields_check = presence_table ds,
                errors = batch_errors lib 0 ds \<rparr>,
            \<lparr> num_users = length ds, fields_check = presence_table ds,
              errors = batch_errors lib 0 ds \<rparr>)"
  using assms
  by (simp add: validate_data_def py_len_def py_iter_def validate_records_dicts
      fields_check_loop_dicts presence_table_def Let_def)


lemma batch_errors_empty_iff:
  "batch_errors lib k ds = [] \<longleftrightarrow> (\<forall>i<length ds. row_errors lib (Suc (k + i)) (ds ! i) = [])"
proof (induction ds arbitrary: k)
  case Nil
  then show ?case by simp
next
  case (Cons d ds)
  show ?case
    by (auto simp: batch_errors_Cons Cons.IH less_Suc_eq_0_disj)
qed



lemma bad_fields_Nil_iff:
  "bad_fields lib d = [] \<longleftrightarrow> coercion_accepts lib d"
  by (simp add: bad_fields_def coercion_accepts_def flag_def)

lemma typed_record_accepted:
  assumes "typed_record d"
  shows "absent d = []" and "coercion_accepts lib d"
proof -
  from assms obtain s where s: "map_of d ''current_steps'' = Some (PInt s)" "0 < s"
    unfolding typed_record_def by (blast elim: pos_int_cases)
  from assms obtain h where h: "map_of d ''heart_rate'' = Some (PInt h)" "0 < h"
    unfolding typed_record_def by (blast elim: pos_int_cases)
  from assms obtain u where u: "map_of d ''user_id'' = Some (PStr u)"
    unfolding typed_record_def by (auto simp: is_str_def split: option.splits pyval.splits)
  from assms obtain tv t where
    t: "map_of d ''ambient_temperature'' = Some tv" "real_val (Some tv) = Some t"
    unfolding typed_record_def
    by (cases "map_of d ''ambient_temperature''") (auto simp: real_val_def)
  from assms obtain ev e where
    e: "map_of d ''environmental_index'' = Some ev" "real_val (Some ev) = Some e"
      "0 \<le> e" "e \<le> 100"
    unfolding typed_record_def
    by (cases "map_of d ''environmental_index''") (auto simp: real_val_def split: option.splits)
  from assms obtain av a where
    a: "map_of d ''activity_intensity_factor'' = Some av" "real_val (Some av) = Some a" "0 < a"
    unfolding typed_record_def
    by (cases "map_of d ''activity_intensity_factor''")
      (auto simp: real_val_def split: option.splits)
  have fl: "\<And>v x P. real_val (Some v) = Some x \<Longrightarrow> P x \<Longrightarrow> float_accepted lib P (Some v)"
    by (auto simp: real_val_def float_accepted_def split: pyval.splits)
  show "absent d = []"
    by (simp add: absent_def required_fields_def s h u t e a)
  show "coercion_accepts lib d"
    unfolding coercion_accepts_def
    using fl[OF t(2), of "\<lambda>x. True"] fl[OF e(2), of "\<lambda>x. 0 \<le> x \<and> x \<le> 100"]
      fl[OF a(2), of "\<lambda>x. 0 < x"] e a
    by (simp add: s h u t(1) e(1) a(1) is_str_def int_accepted_def)
qed



text \<open>
  Claim C4 says that \<open>calculate_metrics\<close> succeeds on every record of a batch that
  \<open>validate_data\<close> has passed. The record below, as the JSON path delivers it, has
  current_steps given as the string "5000": the validator passes the batch, because it only
  checks that \<^verbatim>\<open>int\<close> can convert the value, and \<open>calculate_metrics\<close> then raises
  \<^verbatim>\<open>TypeError\<close> when it multiplies the string by the float intensity.
\<close>

theorem validated_string_steps_crash_metrics:
  "(\<exists>report res. validate_data (sample_lib fmt) (PList [PDict string_steps_record])
        = Inr (True, report, res))
   \<and> calculate_metrics (PDict string_steps_record) = Inl TypeError
   \<and> process_records (sample_lib fmt) [PDict string_steps_record] [] []
       = \<lparr> result = Inl TypeError, computed = [], rendered = [] \<rparr>"
proof -
  have p: "sample_int_of_str ''5000'' = Some 5000" by code_simp
  have "absent string_steps_record = []"
    by (simp add: absent_def required_fields_def string_steps_record_def)
  moreover have "coercion_accepts (sample_lib fmt) string_steps_record"
    by (simp add: coercion_accepts_def string_steps_record_def is_str_def int_accepted_def
        float_accepted_def sample_lib_def p)
  ultimately have "batch_errors (sample_lib fmt) 0 [string_steps_record] = []"
    by (simp add: batch_errors_Cons row_errors_def bad_fields_Nil_iff)
  then have v: "\<exists>report res. validate_data (sample_lib fmt) (PList [PDict string_steps_record])
        = Inr (True, report, res)"
    using validate_data_dicts[where ds = "[string_steps_record]" and lib = "sample_lib fmt"]
    by simp
  have c: "calculate_metrics (PDict string_steps_record) = Inl TypeError"
    by (simp add: calculate_metrics_def string_steps_record_def py_copy_def py_getitem_def
        py_mul_def int_of_num_def num_of_def)
  from c have "process_records (sample_lib fmt) [PDict string_steps_record] [] []
       = \<lparr> result = Inl TypeError, computed = [], rendered = [] \<rparr>"
    by simp
  with v c show ?thesis by blast
qed





section \<open>Properties of the parser\<close>

lemma map_of_foldl_update:
  "map_of (foldl (\<lambda>d (h, x). AList.update h (PStr x) d) d0 kvs) k
     = (case map_of (rev kvs) k of Some x \<Rightarrow> Some (PStr x) | None \<Rightarrow> map_of d0 k)"
proof (induction kvs arbitrary: d0)
  case Nil
  then show ?case by simp
next
  case (Cons kv kvs)
  obtain h x where kv: "kv = (h, x)" by (cases kv)
  show ?case
    by (simp add: kv Cons.IH update_conv' map_add_def split: option.splits)
qed

lemma map_of_build_record:
  "map_of (build_record headers row) k = map_option PStr (map_of (rev (zip headers row)) k)"
  by (simp add: build_record_def map_of_foldl_update split: option.splits)

lemma map_of_rev_distinct:
  assumes "distinct (map fst xs)"
  shows "map_of (rev xs) = map_of xs"
  using assms by (intro map_of_inject_set[THEN iffD2]) (simp_all add: rev_map[symmetric])

lemma coerce_int_str:
  assumes "str_at d f"
  shows "\<exists>d'. coerce_int lib f d = Inr d'
    \<and> map_of d' = (\<lambda>k. if k = f then map_option (conv_int lib) (map_of d k) else map_of d k)"
proof (cases "map_of d f")
  case None
  then show ?thesis
    by (auto simp: coerce_int_def fun_eq_iff)
next
  case (Some v)
  with assms obtain x where v: "v = PStr x"
    by (auto simp: str_at_def split: pyval.splits)
  show ?thesis
    by (cases "int_of_str lib x")
      (auto simp: coerce_int_def Some v py_int_def conv_int_def update_conv' fun_eq_iff)
qed

lemma coerce_float_str:
  assumes "str_at d f"
  shows "\<exists>d'. coerce_float lib f d = Inr d'
    \<and> map_of d' = (\<lambda>k. if k = f then map_option (conv_float lib) (map_of d k) else map_of d k)"
proof (cases "map_of d f")
  case None
  then show ?thesis
    by (auto simp: coerce_float_def fun_eq_iff)
next
  case (Some v)
  with assms obtain x where v: "v = PStr x"
    by (auto simp: str_at_def split: pyval.splits)
  show ?thesis
    by (cases "float_of_str lib x")
      (auto simp: coerce_float_def Some v py_float_def conv_float_def update_conv' fun_eq_iff)
qed

lemma str_at_build_record: "str_at (build_record headers row) k"
  by (simp add: str_at_def map_of_build_record split: option.splits)

lemma row_record_map:
  "\<exists>r. row_record lib headers row = Inr r
     \<and> map_of r = (\<lambda>k. map_option (coerced_value lib k) (map_of (rev (zip headers row)) k))"
proof -
  let ?d0 = "build_record headers row"
  have s0: "str_at ?d0 k" for k by (rule str_at_build_record)
  from coerce_int_str[OF s0, of lib "''current_steps''"] obtain d1 where
    d1: "coerce_int lib ''current_steps'' ?d0 = Inr d1"
    "map_of d1 = (\<lambda>k. if k = ''current_steps'' then map_option (conv_int lib) (map_of ?d0 k)
                       else map_of ?d0 k)"
    by blast
  have s1: "str_at d1 k" if "k \<noteq> ''current_steps''" for k
    using s0[of k] that by (simp add: str_at_def d1(2))
  from coerce_int_str[OF s1, of "''heart_rate''" lib] obtain d2 where
    d2: "coerce_int lib ''heart_rate'' d1 = Inr d2"
    "map_of d2 = (\<lambda>k. if k = ''heart_rate'' then map_option (conv_int lib) (map_of d1 k)
                       else map_of d1 k)"
    by auto
  have s2: "str_at d2 k" if "k \<noteq> ''current_steps''" "k \<noteq> ''heart_rate''" for k
    using s1[of k] that by (simp add: str_at_def d2(2))
  from coerce_float_str[OF s2, of "''ambient_temperature''" lib] obtain d3 where
    d3: "coerce_float lib ''ambient_temperature'' d2 = Inr d3"
    "map_of d3 = (\<lambda>k. if k = ''ambient_temperature''
                       then map_option (conv_float lib) (map_of d2 k) else map_of d2 k)"
    by auto
  have s3: "str_at d3 k"
    if "k \<noteq> ''current_steps''" "k \<noteq> ''heart_rate''" "k \<noteq> ''ambient_temperature''" for k
    using s2[of k] that by (simp add: str_at_def d3(2))
  from coerce_float_str[OF s3, of "''environmental_index''" lib] obtain d4 where
    d4: "coerce_float lib ''environmental_index'' d3 = Inr d4"
    "map_of d4 = (\<lambda>k. if k = ''environmental_index''
                       then map_option (conv_float lib) (map_of d3 k) else map_of d3 k)"
    by auto
  have s4: "str_at d4 k"
    if "k \<noteq> ''current_steps''" "k \<noteq> ''heart_rate''" "k \<noteq> ''ambient_temperature''"
      "k \<noteq> ''environmental_index''" for k
    using s3[of k] that by (simp add: str_at_def d4(2))
  from coerce_float_str[OF s4, of "''activity_intensity_factor''" lib] obtain d5 where
    d5: "coerce_float lib ''activity_intensity_factor'' d4 = Inr d5"
    "map_of d5 = (\<lambda>k. if k = ''activity_intensity_factor''
                       then map_option (conv_float lib) (map_of d4 k) else map_of d4 k)"
    by auto
  have run: "row_record lib headers row = Inr d5"
    by (simp add: row_record_def d1(1) d2(1) d3(1) d4(1) d5(1))
  have "map_of d5 k = map_option (coerced_value lib k) (map_of (rev (zip headers row)) k)" for k
  proof -
    have cv:
      "coerced_value lib ''current_steps''
         = (\<lambda>x. case int_of_str lib x of Some i \<Rightarrow> PInt i | None \<Rightarrow> PStr x)"
      "coerced_value lib ''heart_rate''
         = (\<lambda>x. case int_of_str lib x of Some i \<Rightarrow> PInt i | None \<Rightarrow> PStr x)"
      "coerced_value lib ''ambient_temperature''
         = (\<lambda>x. case float_of_str lib x of Some r \<Rightarrow> PFloat r | None \<Rightarrow> PStr x)"
      "coerced_value lib ''environmental_index''
         = (\<lambda>x. case float_of_str lib x of Some r \<Rightarrow> PFloat r | None \<Rightarrow> PStr x)"
      "coerced_value lib ''activity_intensity_factor''
         = (\<lambda>x. case float_of_str lib x of Some r \<Rightarrow> PFloat r | None \<Rightarrow> PStr x)"
      by (simp_all add: fun_eq_iff coerced_value_def)
    consider "k = ''current_steps''" | "k = ''heart_rate''" | "k = ''ambient_temperature''"
      | "k = ''environmental_index''" | "k = ''activity_intensity_factor''"
      | "k \<notin> set [''current_steps'', ''heart_rate'', ''ambient_temperature'',
                      ''environmental_index'', ''activity_intensity_factor'']"
      by auto
    then show ?thesis
    proof cases
      case 6
      then show ?thesis
        by (simp add: d5(2) d4(2) d3(2) d2(2) d1(2) map_of_build_record coerced_value_def
            cong: option.map_cong)
    qed (simp_all add: d5(2) d4(2) d3(2) d2(2) d1(2) map_of_build_record cv
        conv_int_def conv_float_def option.map_comp comp_def)
  qed
  with run show ?thesis by blast
qed

lemma csv_rows_maps:
  "\<exists>records. csv_rows lib headers rows = Inr (map PDict records)
     \<and> map map_of records
        = map (\<lambda>row k. map_option (coerced_value lib k) (map_of (rev (zip headers row)) k))
            (filter (\<lambda>row. length row = length headers) rows)"
proof (induction rows)
  case Nil
  then show ?case by simp
next
  case (Cons row rows)
  then obtain records where IH: "csv_rows lib headers rows = Inr (map PDict records)"
    "map map_of records
        = map (\<lambda>row k. map_option (coerced_value lib k) (map_of (rev (zip headers row)) k))
            (filter (\<lambda>row. length row = length headers) rows)"
    by blast
  show ?case
  proof (cases "length row = length headers")
    case False
    with IH show ?thesis by auto
  next
    case True
    from row_record_map[of lib headers row] obtain r where
      r: "row_record lib headers row = Inr r"
      "map_of r = (\<lambda>k. map_option (coerced_value lib k) (map_of (rev (zip headers row)) k))"
      by blast
    have "csv_rows lib headers (row # rows) = Inr (map PDict (r # records))"
      using True by (simp add: r(1) IH(1))
    moreover have "map map_of (r # records)
        = map (\<lambda>row k. map_option (coerced_value lib k) (map_of (rev (zip headers row)) k))
            (filter (\<lambda>row. length row = length headers) (row # rows))"
      using True by (simp add: r(2) IH(2))
    ultimately show ?thesis by blast
  qed
qed

lemma parse_csv:
  assumes "\<not> starts_with_brace (strip s)" and "CHR '','' \<in> set (strip s)"
    and "csv_reader lib (strip s) = Inr (header # rows)"
  shows "\<exists>records. parse_input_data lib s = PList (map PDict records)
    \<and> map map_of records
        = map (\<lambda>row k. map_option (coerced_value lib k)
                          (map_of (rev (zip (map strip header) row)) k))
            (kept_rows header rows)"
proof (cases rows)
  case Nil
  with assms show ?thesis
    by (simp add: parse_input_data_def parse_body_def kept_rows_def)
next
  case (Cons row rest)
  from csv_rows_maps[of lib "map strip header" rows] obtain records where
    r: "csv_rows lib (map strip header) rows = Inr (map PDict records)"
    "map map_of records
        = map (\<lambda>row k. map_option (coerced_value lib k)
                          (map_of (rev (zip (map strip header) row)) k))
            (filter (\<lambda>row. length row = length (map strip header)) rows)"
    by blast
  have "parse_input_data lib s = PList (map PDict records)"
    using assms r(1) unfolding Cons by (simp add: parse_input_data_def parse_body_def)
  with r(2) show ?thesis
    by (auto simp: kept_rows_def)
qed

lemma is_permD:
  assumes "is_perm p n"
  shows "set p = {0 ..< n}" and "distinct p" and "length p = n"
proof -
  from assms have s: "sort p = [0 ..< n]" by (simp add: is_perm_def)
  have "set (sort p) = set p" by simp
  with s show "set p = {0 ..< n}" by simp
  have "distinct (sort p) = distinct p" by simp
  with s show "distinct p" by simp
  have "length (sort p) = length p" by simp
  with s show "length p = n" by simp
qed

lemma map_of_zip_permute:
  assumes "is_perm p (length hs)" and "length row = length hs" and "distinct hs"
  shows "map_of (rev (zip (permute p hs) (permute p row))) = map_of (rev (zip hs row))"
proof -
  note pm = is_permD[OF assms(1)]
  have z: "zip (permute p hs) (permute p row) = map (\<lambda>j. (hs ! j, row ! j)) p"
    by (simp add: permute_def zip_map_map zip_same_conv_map)
  have d1: "distinct (map fst (zip hs row))"
    using assms(2,3) by (simp add: map_fst_zip)
  have inj: "inj_on (\<lambda>j. hs ! j) (set p)"
    unfolding pm(1) using assms(3) by (auto simp: inj_on_def nth_eq_iff_index_eq)
  have d2: "distinct (map fst (zip (permute p hs) (permute p row)))"
    unfolding z using pm(2) inj by (simp add: distinct_map comp_def)
  have st: "set (zip (permute p hs) (permute p row)) = set (zip hs row)"
    unfolding z using assms(2) by (auto simp: pm(1) set_zip)
  have "map_of (zip (permute p hs) (permute p row)) = map_of (zip hs row)"
    using d1 d2 st by (simp add: map_of_inject_set)
  then show ?thesis
    by (simp add: map_of_rev_distinct[OF d1] map_of_rev_distinct[OF d2])
qed

lemma strip_permute:
  assumes "is_perm p (length header)"
  shows "map strip (permute p header) = permute p (map strip header)"
  using is_permD(1)[OF assms] by (simp add: permute_def)

lemma distinct_permute:
  assumes "is_perm p (length hs)" and "distinct hs"
  shows "distinct (permute p hs)"
proof -
  note pm = is_permD[OF assms(1)]
  have "inj_on (\<lambda>j. hs ! j) (set p)"
    unfolding pm(1) using assms(2) by (auto simp: inj_on_def nth_eq_iff_index_eq)
  with pm(2) show ?thesis
    by (simp add: permute_def distinct_map)
qed

text \<open>
  Claim C8, amended. For every delimited input whose trimmed header names are pairwise
  distinct, \<open>parse_input_data\<close> returns one record for each data row whose field count equals
  the header's and drops every other row without an error; each record maps each trimmed
  header name to the value of the row in that column (converted to a number for the numeric
  fields when the conversion succeeds) and has no other keys; and when all rows have the
  header's field count, a delimited input whose columns are those of the first permuted, header
  and rows alike, yields the same sequence of records.
\<close>

theorem header_keyed_records:
  assumes csv: "\<not> starts_with_brace (strip s)" "CHR '','' \<in> set (strip s)"
    and rd: "csv_reader lib (strip s) = Inr (header # rows)"
    and dist: "distinct (map strip header)"
  shows "\<exists>records. parse_input_data lib s = PList (map PDict records)
    \<and> length records = length (kept_rows header rows)
    \<and> (\<forall>i < length records. \<forall>j < length header.
          map_of (records ! i) (strip (header ! j))
            = Some (coerced_value lib (strip (header ! j)) (kept_rows header rows ! i ! j)))
    \<and> (\<forall>i < length records. dom (map_of (records ! i)) = set (map strip header))
    \<and> (\<forall>p s'. is_perm p (length header) \<and> (\<forall>row \<in> set rows. length row = length header)
          \<and> \<not> starts_with_brace (strip s') \<and> CHR '','' \<in> set (strip s')
          \<and> csv_reader lib (strip s') = Inr (permute p header # map (permute p) rows)
        \<longrightarrow> (\<exists>records'. parse_input_data lib s' = PList (map PDict records')
              \<and> map map_of records' = map map_of records))"
proof -
  let ?hs = "map strip header"
  let ?kept = "kept_rows header rows"
  let ?view = "\<lambda>hs row k. map_option (coerced_value lib k) (map_of (rev (zip hs row)) k)"
  from parse_csv[OF csv rd] obtain records where
    P: "parse_input_data lib s = PList (map PDict records)"
    and M: "map map_of records = map (?view ?hs) ?kept"
    by blast
  from M have len: "length records = length ?kept"
    by (metis length_map)
  have keptlen: "length (?kept ! i) = length header" if "i < length ?kept" for i
    using nth_mem[OF that] by (simp add: kept_rows_def)
  have rec: "map_of (records ! i) = row_map lib ?hs (?kept ! i)" if "i < length records" for i
  proof -
    have "map_of (records ! i) = map map_of records ! i"
      using that by simp
    also have "\<dots> = ?view ?hs (?kept ! i)"
      unfolding M using that len by simp
    also have "\<dots> = row_map lib ?hs (?kept ! i)"
    proof -
      have "distinct (map fst (zip ?hs (?kept ! i)))"
        using dist keptlen[of i] that len by (simp add: map_fst_zip)
      from map_of_rev_distinct[OF this] show ?thesis
        by (simp add: row_map_def fun_eq_iff)
    qed
    finally show ?thesis .
  qed
  have look: "map_of (records ! i) (strip (header ! j))
      = Some (coerced_value lib (strip (header ! j)) (?kept ! i ! j))"
    if "i < length records" "j < length header" for i j
  proof -
    have l: "length ?hs = length (?kept ! i)"
      using keptlen[of i] that(1) len by simp
    have "map_of (zip ?hs (?kept ! i)) (?hs ! j) = Some (?kept ! i ! j)"
      using map_of_zip_nth[OF l dist] that(2) l by simp
    then show ?thesis
      using that(2) by (simp add: rec[OF that(1)] row_map_def)
  qed
  have doms: "dom (map_of (records ! i)) = set ?hs" if "i < length records" for i
  proof -
    have l: "length ?hs = length (?kept ! i)"
      using keptlen[of i] that len by simp
    have "dom (row_map lib ?hs (?kept ! i)) = dom (map_of (zip ?hs (?kept ! i)))"
      by (auto simp: row_map_def dom_def)
    also have "\<dots> = set ?hs"
      using l by (simp add: dom_map_of_zip)
    finally show ?thesis
      by (simp add: rec[OF that])
  qed
  have perm: "\<exists>records'. parse_input_data lib s' = PList (map PDict records')
              \<and> map map_of records' = map map_of records"
    if pm: "is_perm p (length header)"
      and same: "\<forall>row \<in> set rows. length row = length header"
      and csv': "\<not> starts_with_brace (strip s')" "CHR '','' \<in> set (strip s')"
      and rd': "csv_reader lib (strip s') = Inr (permute p header # map (permute p) rows)"
    for p s'
  proof -
    from parse_csv[OF csv' rd'] obtain records' where
      P': "parse_input_data lib s' = PList (map PDict records')"
      and M': "map map_of records'
        = map (?view (map strip (permute p header)))
            (kept_rows (permute p header) (map (permute p) rows))"
      by blast
    have lp: "length p = length header"
      using is_permD(3)[OF pm] .
    have k': "kept_rows (permute p header) (map (permute p) rows) = map (permute p) rows"
      by (simp add: kept_rows_def permute_def lp)
    have k: "?kept = rows"
      using same by (simp add: kept_rows_def)
    have pm': "is_perm p (length ?hs)"
      using pm by simp
    have "?view (map strip (permute p header)) (permute p row) = ?view ?hs row"
      if "row \<in> set rows" for row
    proof -
      have "length row = length ?hs"
        using same that by simp
      from map_of_zip_permute[OF pm' this dist] show ?thesis
        by (simp add: strip_permute[OF pm])
    qed
    then have "map map_of records' = map map_of records"
      unfolding M M' k k' by (simp add: comp_def)
    with P' show ?thesis by blast
  qed
  from P len look doms perm show ?thesis
    by blast
qed

text \<open>
  Claim C8 as stated fails when two columns carry the same trimmed header name: the record
  keeps the value of the last such column only, so the first column's name is not mapped to
  its own value, and exchanging the two columns changes the record.
\<close>

theorem duplicate_header_counterexample:
  "\<forall>fmt.
     parse_input_data (sample_lib fmt) (''a,a'' @ nl @ ''1,2'')
       = PList [PDict [(''a'', PStr ''2'')]]
     \<and> parse_input_data (sample_lib fmt) (''a,a'' @ nl @ ''2,1'')
       = PList [PDict [(''a'', PStr ''1'')]]
     \<and> map_of [(''a'', PStr ''2'')] ''a'' \<noteq> Some (PStr ''1'')
     \<and> map_of [(''a'', PStr ''2'')] \<noteq> map_of [(''a'', PStr ''1'')]"
proof
  fix fmt
  have a: "parse_input_data (sample_lib fmt) (''a,a'' @ nl @ ''1,2'')
      = PList [PDict [(''a'', PStr ''2'')]]"
    by code_simp
  have b: "parse_input_data (sample_lib fmt) (''a,a'' @ nl @ ''2,1'')
      = PList [PDict [(''a'', PStr ''1'')]]"
    by code_simp
  have c: "map_of [(''a'', PStr ''2'')] ''a'' \<noteq> Some (PStr ''1'')"
    by simp
  have d: "map_of [(''a'', PStr ''2'')] \<noteq> map_of [(''a'', PStr ''1'')]"
    by (simp add: fun_eq_iff)
  from a b c d show "parse_input_data (sample_lib fmt) (''a,a'' @ nl @ ''1,2'')
       = PList [PDict [(''a'', PStr ''2'')]]
     \<and> parse_input_data (sample_lib fmt) (''a,a'' @ nl @ ''2,1'')
       = PList [PDict [(''a'', PStr ''1'')]]
     \<and> map_of [(''a'', PStr ''2'')] ''a'' \<noteq> Some (PStr ''1'')
     \<and> map_of [(''a'', PStr ''2'')] \<noteq> map_of [(''a'', PStr ''1'')]"
    by blast
qed

theorem header_keyed_records_witness:
  "\<forall>fmt.
     \<not> starts_with_brace (strip (''b, current_steps'' @ nl @ ''x,7'' @ nl @ ''only_one''))
     \<and> CHR '','' \<in> set (strip (''b, current_steps'' @ nl @ ''x,7'' @ nl @ ''only_one''))
     \<and> csv_reader (sample_lib fmt) (strip (''b, current_steps'' @ nl @ ''x,7'' @ nl @ ''only_one''))
         = Inr [[''b'', '' current_steps''], [''x'', ''7''], [''only_one'']]
     \<and> distinct (map strip [''b'', '' current_steps''])
     \<and> (\<exists>record. parse_input_data (sample_lib fmt)
                     (''b, current_steps'' @ nl @ ''x,7'' @ nl @ ''only_one'') = PList [PDict record]
           \<and> map_of record ''b'' = Some (PStr ''x'')
           \<and> map_of record ''current_steps'' = Some (PInt 7))
     \<and> is_perm [1, 0] 2
     \<and> csv_reader (sample_lib fmt) (strip (''current_steps,b'' @ nl @ ''7,x''))
         = Inr [permute [1, 0] [''b'', ''current_steps''], permute [1, 0] [''x'', ''7'']]
     \<and> (\<exists>records records'.
           parse_input_data (sample_lib fmt) (''b,current_steps'' @ nl @ ''x,7'')
             = PList (map PDict records)
           \<and> parse_input_data (sample_lib fmt) (''current_steps,b'' @ nl @ ''7,x'')
             = PList (map PDict records')
           \<and> map map_of records' = map map_of records)"
proof
  fix fmt
  let ?lib = "sample_lib fmt"
  let ?s = "''b, current_steps'' @ nl @ ''x,7'' @ nl @ ''only_one''"
  let ?t = "''b,current_steps'' @ nl @ ''x,7''"
  let ?t' = "''current_steps,b'' @ nl @ ''7,x''"
  let ?header = "[''b'', '' current_steps'']"
  let ?plain = "[''b'', ''current_steps'']"
  have s1: "\<not> starts_with_brace (strip ?s)" by code_simp
  have s2: "CHR '','' \<in> set (strip ?s)" by code_simp
  have s3: "csv_reader ?lib (strip ?s) = Inr (?header # [[''x'', ''7''], [''only_one'']])"
    by code_simp
  have s4: "distinct (map strip ?header)" by code_simp
  have t1: "\<not> starts_with_brace (strip ?t)" by code_simp
  have t2: "CHR '','' \<in> set (strip ?t)" by code_simp
  have t3: "csv_reader ?lib (strip ?t) = Inr (?plain # [[''x'', ''7'']])"
    by code_simp
  have u1: "\<not> starts_with_brace (strip ?t')" by code_simp
  have u2: "CHR '','' \<in> set (strip ?t')" by code_simp
  have u3: "csv_reader ?lib (strip ?t')
      = Inr (permute [1, 0] ?plain # map (permute [1, 0]) [[''x'', ''7'']])"
    by code_simp
  have t4: "distinct (map strip ?plain)" by code_simp
  have pm: "is_perm [1, 0] (length ?plain)" by code_simp
  have pm2: "is_perm [1, 0] 2" by code_simp
  have k: "kept_rows ?header [[''x'', ''7''], [''only_one'']] = [[''x'', ''7'']]"
    by (simp add: kept_rows_def)
  have st: "strip ''b'' = ''b''" "strip '' current_steps'' = ''current_steps''"
    by code_simp+
  have cv: "coerced_value ?lib ''b'' ''x'' = PStr ''x''"
    "coerced_value ?lib ''current_steps'' ''7'' = PInt 7"
    by code_simp+
  from header_keyed_records[OF s1 s2 s3 s4] obtain records where
    r: "parse_input_data ?lib ?s = PList (map PDict records)"
    and l: "length records = length (kept_rows ?header [[''x'', ''7''], [''only_one'']])"
    and v: "\<forall>i < length records. \<forall>j < length ?header.
          map_of (records ! i) (strip (?header ! j))
            = Some (coerced_value ?lib (strip (?header ! j))
                (kept_rows ?header [[''x'', ''7''], [''only_one'']] ! i ! j))"
    by blast
  from l k obtain rcd where rs: "records = [rcd]"
    by (cases records) auto
  from v have "map_of rcd (strip (?header ! 0))
      = Some (coerced_value ?lib (strip (?header ! 0)) ''x'')"
    "map_of rcd (strip (?header ! 1)) = Some (coerced_value ?lib (strip (?header ! 1)) ''7'')"
    unfolding rs k by force+
  then have first: "\<exists>record. parse_input_data ?lib ?s = PList [PDict record]
           \<and> map_of record ''b'' = Some (PStr ''x'')
           \<and> map_of record ''current_steps'' = Some (PInt 7)"
    using r rs by (simp add: st cv)
  have same: "\<forall>row \<in> set [[''x'', ''7'']]. length row = length ?plain"
    by simp
  from header_keyed_records[OF t1 t2 t3 t4] obtain records2 where
    r2: "parse_input_data ?lib ?t = PList (map PDict records2)"
    and p2: "\<forall>p s'. is_perm p (length ?plain)
          \<and> (\<forall>row \<in> set [[''x'', ''7'']]. length row = length ?plain)
          \<and> \<not> starts_with_brace (strip s') \<and> CHR '','' \<in> set (strip s')
          \<and> csv_reader ?lib (strip s')
              = Inr (permute p ?plain # map (permute p) [[''x'', ''7'']])
        \<longrightarrow> (\<exists>records'. parse_input_data ?lib s' = PList (map PDict records')
              \<and> map map_of records' = map map_of records2)"
    by blast
  from p2 pm same u1 u2 u3 obtain records' where
    "parse_input_data ?lib ?t' = PList (map PDict records')"
    "map map_of records' = map map_of records2"
    by blast
  with r2 have second: "\<exists>records records'.
           parse_input_data ?lib ?t = PList (map PDict records)
           \<and> parse_input_data ?lib ?t' = PList (map PDict records')
           \<and> map map_of records' = map map_of records"
    by blast
  have u3': "csv_reader ?lib (strip ?t')
      = Inr [permute [1, 0] ?plain, permute [1, 0] [''x'', ''7'']]"
    using u3 by simp
  from s1 s2 s3 s4 first pm2 u3' second
  show "\<not> starts_with_brace (strip ?s)
     \<and> CHR '','' \<in> set (strip ?s)
     \<and> csv_reader ?lib (strip ?s) = Inr [?header, [''x'', ''7''], [''only_one'']]
     \<and> distinct (map strip ?header)
     \<and> (\<exists>record. parse_input_data ?lib ?s = PList [PDict record]
           \<and> map_of record ''b'' = Some (PStr ''x'')
           \<and> map_of record ''current_steps'' = Some (PInt 7))
     \<and> is_perm [1, 0] 2
     \<and> csv_reader ?lib (strip ?t')
         = Inr [permute [1, 0] ?plain, permute [1, 0] [''x'', ''7'']]
     \<and> (\<exists>records records'.
           parse_input_data ?lib ?t = PList (map PDict records)
           \<and> parse_input_data ?lib ?t' = PList (map PDict records')
           \<and> map map_of records' = map map_of records)"
    by blast
qed

section \<open>Properties of the pipeline\<close>

text \<open>
  Claim C5. Validation is all-or-nothing: whenever \<open>validate_data\<close> returns passed = false
  for a parsed, non-empty batch, \<open>process_data\<close> returns exactly the validation report, no
  metrics are computed and no user report is rendered, for the valid records of the batch
  as for the others.
\<close>

theorem invalid_batch_returns_validation_report:
  assumes "truthy (parse_input_data lib s)"
    and "validate_data lib (parse_input_data lib s) = Inr (False, report, details)"
  shows "process_data lib s = Inr report
    \<and> process_data_run lib s = \<lparr> result = Inr report, computed = [], rendered = [] \<rparr>"
  using assms by (simp add: process_data_def process_data_run_def Let_def)

theorem invalid_batch_returns_validation_report_witness:
  "\<forall>fmt.
     truthy (parse_input_data (sample_lib fmt) two_row_csv)
     \<and> (\<exists>u1 u2 report details.
          parse_input_data (sample_lib fmt) two_row_csv = PList [PDict u1, PDict u2]
          \<and> typed_record u1
          \<and> validate_data (sample_lib fmt) (PList [PDict u1, PDict u2])
              = Inr (False, report, details)
          \<and> errors details
              = [''ERROR: Invalid value for the field(s): current_steps in row 2. Please correct and resubmit.'']
          \<and> process_data (sample_lib fmt) two_row_csv = Inr report
          \<and> process_data_run (sample_lib fmt) two_row_csv
              = \<lparr> result = Inr report, computed = [], rendered = [] \<rparr>)"
proof
  fix fmt
  let ?lib = "sample_lib fmt"
  let ?u1 = "[(''user_id'', PStr ''U1''), (''current_steps'', PInt 5000),
     (''heart_rate'', PInt 70), (''ambient_temperature'', PFloat 20),
     (''environmental_index'', PFloat 80), (''activity_intensity_factor'', PFloat (11 / 10))]"
  let ?u2 = "[(''user_id'', PStr ''U2''), (''current_steps'', PStr ''abc''),
     (''heart_rate'', PInt 70), (''ambient_temperature'', PFloat 20),
     (''environmental_index'', PFloat 80), (''activity_intensity_factor'', PFloat (11 / 10))]"
  have p: "parse_input_data ?lib two_row_csv = PList [PDict ?u1, PDict ?u2]"
    by code_simp
  have tr: "truthy (parse_input_data ?lib two_row_csv)"
    unfolding p by (simp add: truthy_def)
  have ty: "typed_record ?u1"
    by (simp add: record_eval)
  have abc: "sample_int_of_str ''abc'' = None" by code_simp
  have ab: "absent ?u1 = []" "absent ?u2 = []"
    by (simp_all add: absent_def required_fields_def)
  have bf: "bad_fields ?lib ?u1 = []" "bad_fields ?lib ?u2 = [''current_steps'']"
    by (simp_all add: bad_fields_def flag_def is_str_def int_accepted_def float_accepted_def
        sample_lib_def abc)
  have n: "str_of_nat (Suc (Suc 0)) = ''2''"
    by (simp add: str_of_nat.simps)
  have be: "batch_errors ?lib 0 [?u1, ?u2]
      = [''ERROR: Invalid value for the field(s): current_steps in row 2. Please correct and resubmit.'']"
    by (simp add: batch_errors_Cons row_errors_def ab bf invalid_msg_def n)
  from validate_data_dicts[where ds = "[?u1, ?u2]" and lib = ?lib]
  obtain report details where
    v: "validate_data ?lib (PList [PDict ?u1, PDict ?u2]) = Inr (False, report, details)"
    and e: "errors details = batch_errors ?lib 0 [?u1, ?u2]"
    unfolding be by simp
  have v': "validate_data ?lib (parse_input_data ?lib two_row_csv) = Inr (False, report, details)"
    unfolding p by (rule v)
  from invalid_batch_returns_validation_report[OF tr v']
  have "process_data ?lib two_row_csv = Inr report
    \<and> process_data_run ?lib two_row_csv = \<lparr> result = Inr report, computed = [], rendered = [] \<rparr>" .
  with tr p ty v e be
  show "truthy (parse_input_data ?lib two_row_csv)
     \<and> (\<exists>u1 u2 report details.
          parse_input_data ?lib two_row_csv = PList [PDict u1, PDict u2]
          \<and> typed_record u1
          \<and> validate_data ?lib (PList [PDict u1, PDict u2]) = Inr (False, report, details)
          \<and> errors details
              = [''ERROR: Invalid value for the field(s): current_steps in row 2. Please correct and resubmit.'']
          \<and> process_data ?lib two_row_csv = Inr report
          \<and> process_data_run ?lib two_row_csv
              = \<lparr> result = Inr report, computed = [], rendered = [] \<rparr>)"
    by (metis (no_types, lifting))
qed

text \<open>
  Claim C9. For every input that after trimming neither starts with an opening brace nor
  contains a comma, and for every input whose parsing raises an exception (in
  \<^verbatim>\<open>json.loads\<close>, in \<^verbatim>\<open>csv.reader\<close> or anywhere in the \<^verbatim>\<open>try\<close> block),
  \<open>parse_input_data\<close> returns the empty sequence; and whenever the parse result is empty,
  \<open>process_data\<close> returns the fixed format error and processes nothing.
\<close>

theorem unparseable_input_gives_format_error:
  "(\<not> starts_with_brace (strip s) \<and> CHR '','' \<notin> set (strip s)
      \<longrightarrow> parse_input_data lib s = PList [])
   \<and> (starts_with_brace (strip s) \<and> json_loads lib (strip s) = Inl e
      \<longrightarrow> parse_input_data lib s = PList [])
   \<and> (\<not> starts_with_brace (strip s) \<and> CHR '','' \<in> set (strip s)
        \<and> csv_reader lib (strip s) = Inl e
      \<longrightarrow> parse_input_data lib s = PList [])
   \<and> (parse_body lib (strip s) = Inl e \<longrightarrow> parse_input_data lib s = PList [])
   \<and> (parse_input_data lib s = PList []
      \<longrightarrow> process_data lib s = Inr format_error
        \<and> process_data_run lib s
            = \<lparr> result = Inr format_error, computed = [], rendered = [] \<rparr>)"
  by (simp add: parse_input_data_def parse_body_def process_data_def process_data_run_def
      truthy_def Let_def)

theorem unparseable_input_gives_format_error_witness:
  "\<forall>fmt.
     \<not> starts_with_brace (strip ''  hello world  '')
     \<and> CHR '','' \<notin> set (strip ''  hello world  '')
     \<and> parse_input_data (sample_lib fmt) ''  hello world  '' = PList []
     \<and> process_data (sample_lib fmt) ''  hello world  ''
         = Inr ''ERROR: Invalid data format. Please provide data in CSV or JSON format.''
     \<and> starts_with_brace (strip ''{broken, no json'')
     \<and> json_loads (sample_lib fmt) (strip ''{broken, no json'') = Inl ValueError
     \<and> parse_input_data (sample_lib fmt) ''{broken, no json'' = PList []
     \<and> process_data (sample_lib fmt) ''{broken, no json''
         = Inr ''ERROR: Invalid data format. Please provide data in CSV or JSON format.''"
proof
  fix fmt
  let ?lib = "sample_lib fmt"
  let ?a = "''  hello world  ''"
  let ?b = "''{broken, no json''"
  have a1: "\<not> starts_with_brace (strip ?a)" by code_simp
  have a2: "CHR '','' \<notin> set (strip ?a)" by code_simp
  have b1: "starts_with_brace (strip ?b)" by code_simp
  have b2: "json_loads ?lib (strip ?b) = Inl ValueError" by (simp add: sample_lib_def)
  note ta = unparseable_input_gives_format_error[of ?a ?lib ValueError]
  note tb = unparseable_input_gives_format_error[of ?b ?lib ValueError]
  from ta a1 a2 have a3: "parse_input_data ?lib ?a = PList []" by blast
  with ta have a4: "process_data ?lib ?a = Inr format_error" by blast
  from tb b1 b2 have b3: "parse_input_data ?lib ?b = PList []" by blast
  with tb have b4: "process_data ?lib ?b = Inr format_error" by blast
  from a1 a2 a3 a4 b1 b2 b3 b4
  show "\<not> starts_with_brace (strip ?a)
     \<and> CHR '','' \<notin> set (strip ?a)
     \<and> parse_input_data ?lib ?a = PList []
     \<and> process_data ?lib ?a
         = Inr ''ERROR: Invalid data format. Please provide data in CSV or JSON format.''
     \<and> starts_with_brace (strip ?b)
     \<and> json_loads ?lib (strip ?b) = Inl ValueError
     \<and> parse_input_data ?lib ?b = PList []
     \<and> process_data ?lib ?b
         = Inr ''ERROR: Invalid data format. Please provide data in CSV or JSON format.''"
    by (simp add: format_error_def)
qed

text \<open>
  On typed records inside the float range the engine and the renderer do not fail: a parsed
  batch of such records is carried through to one report per record.
\<close>

lemma input_lines_dict:
  assumes "\<forall>field \<in> set fs. map_of d field \<noteq> None"
  shows "\<exists>echoed. input_lines lib (PDict d) fs = Inr echoed"
  using assms
proof (induction fs)
  case Nil
  then show ?case by simp
next
  case (Cons f fs)
  then obtain v echoed where "map_of d f = Some v" "input_lines lib (PDict d) fs = Inr echoed"
    by auto
  then show ?case
    by (simp add: py_getitem_def)
qed

lemma generate_report_typed:
  assumes "absent d = []"
  shows "\<exists>report. generate_report lib \<lparr>input_data = PDict d, calcs = expected_calcs d\<rparr>
           = Inr report"
proof -
  from assms have all: "\<forall>field \<in> set required_fields. map_of d field \<noteq> None"
    by (simp add: absent_Nil_iff)
  then obtain u s h t e a where f:
    "map_of d ''user_id'' = Some u" "map_of d ''current_steps'' = Some s"
    "map_of d ''heart_rate'' = Some h" "map_of d ''ambient_temperature'' = Some t"
    "map_of d ''environmental_index'' = Some e" "map_of d ''activity_intensity_factor'' = Some a"
    unfolding required_fields_def by auto
  from input_lines_dict[OF all] obtain echoed where
    i: "input_lines lib (PDict d) required_fields = Inr echoed"
    by blast
  obtain hf where hf: "table_lookup heart_rate_factors
      (spec_heart_category (field_num d ''heart_rate'')) = Inr hf"
    using heart_factor_lookup by blast
  obtain ef where ef: "table_lookup env_factors
      (spec_env_quality (field_num d ''environmental_index'')) = Inr ef"
    using env_factor_lookup by blast
  show ?thesis
    unfolding generate_report_def
    by (simp add: Let_def py_getitem_def f i expected_calcs_def hf ef)
qed

lemma process_records_typed:
  assumes "\<forall>d \<in> set ds. typed_record d \<and> in_float_range d"
  shows "\<exists>ms reports. process_records lib (map PDict ds) ms0 rs0
      = \<lparr> result = Inr (nl @ nl @ join (nl @ nl @ ''---'' @ nl @ nl) (rs0 @ reports)),
          computed = ms0 @ ms, rendered = rs0 @ reports \<rparr>
      \<and> length ms = length ds \<and> length reports = length ds"
  using assms
proof (induction ds arbitrary: ms0 rs0)
  case Nil
  then show ?case by simp
next
  case (Cons d ds)
  then have t: "typed_record d" and i: "in_float_range d" by simp_all
  note m = calculate_metrics_typed(1)[OF t i]
  let ?m = "\<lparr>input_data = PDict d, calcs = expected_calcs d\<rparr>"
  from generate_report_typed[OF typed_record_accepted(1)[OF t], of lib] obtain report where
    r: "generate_report lib ?m = Inr report"
    by blast
  from Cons.IH[of "ms0 @ [?m]" "rs0 @ [report]"] Cons.prems obtain ms reports where
    IH: "process_records lib (map PDict ds) (ms0 @ [?m]) (rs0 @ [report])
      = \<lparr> result = Inr (nl @ nl @ join (nl @ nl @ ''---'' @ nl @ nl)
                            ((rs0 @ [report]) @ reports)),
          computed = (ms0 @ [?m]) @ ms, rendered = (rs0 @ [report]) @ reports \<rparr>"
    "length ms = length ds" "length reports = length ds"
    by auto
  have "process_records lib (map PDict (d # ds)) ms0 rs0
      = \<lparr> result = Inr (nl @ nl @ join (nl @ nl @ ''---'' @ nl @ nl)
                            (rs0 @ (report # reports))),
          computed = ms0 @ (?m # ms), rendered = rs0 @ (report # reports) \<rparr>"
    by (simp add: m r IH(1))
  moreover have "length (?m # ms) = length (d # ds)" "length (report # reports) = length (d # ds)"
    using IH(2,3) by simp_all
  ultimately show ?case by blast
qed

lemma typed_batch_is_processed:
  assumes "parse_input_data lib s = PList (map PDict ds)" and "ds \<noteq> []"
    and "\<forall>d \<in> set ds. typed_record d \<and> in_float_range d"
  shows "\<exists>ms reports. process_data_run lib s
      = \<lparr> result = Inr (nl @ nl @ join (nl @ nl @ ''---'' @ nl @ nl) reports),
          computed = ms, rendered = reports \<rparr>
      \<and> length ms = length ds \<and> length reports = length ds"
proof -
  have "row_errors lib (Suc (0 + i)) (ds ! i) = []" if "i < length ds" for i
  proof -
    from that assms(3) have "typed_record (ds ! i)" by simp
    from typed_record_accepted(1)[OF this] typed_record_accepted(2)[OF this, of lib]
    show ?thesis
      by (simp add: row_errors_def bad_fields_Nil_iff)
  qed
  then have "batch_errors lib 0 ds = []"
    unfolding batch_errors_empty_iff by blast
  then have v: "\<exists>report details. validate_data lib (PList (map PDict ds))
      = Inr (True, report, details)"
    by (simp add: validate_data_dicts[OF assms(2)])
  from process_records_typed[OF assms(3), of lib "[]" "[]"] v assms(2) show ?thesis
    by (auto simp: process_data_run_def assms(1) truthy_def py_iter_def)
qed

end
